theory Spec2Isabelle
  imports Complex_Main
begin

section \<open>Round corners: the geometry kernel of \<^verbatim>\<open>round_corners.py\<close>\<close>

text \<open>
  Python floats are modelled as \<^typ>\<open>real\<close> (exact arithmetic). Every concrete input
  used below has dyadic coordinates whose intermediate values stay exactly representable
  wherever the control flow depends on them, so the float run takes the same branches.
  A Python exception is a value \<open>Inl e\<close> of the result type.
\<close>

subsection \<open>Errors and points\<close>

datatype py_error =
    ZeroDivisionError
  | ValueError
  | IndexError
  | AttributeError
  | TypeError
  | RecursionError
  | PyException string

type_synonym point = "real \<times> real"

text \<open>Python's float division: \<open>a / b\<close> raises when \<open>b\<close> is zero.\<close>

definition py_div :: "real \<Rightarrow> real \<Rightarrow> py_error + real" where
  "py_div a b = (if b = 0 then Inl ZeroDivisionError else Inr (a / b))"

subsection \<open>\<^verbatim>\<open>CenterCurveSegment.calculate_center_point\<close>\<close>

text \<open>One pass of the inner \<^verbatim>\<open>while i < len(prev_x_list)\<close> loop: the list of
  \<open>(1-t)*prev + t*x\<close> over adjacent entries.\<close>

fun lerp_adjacent :: "real \<Rightarrow> real list \<Rightarrow> real list" where
  "lerp_adjacent t (a # b # xs) = ((1 - t) * a + t * b) # lerp_adjacent t (b # xs)"
| "lerp_adjacent t xs = []"

lemma length_lerp_adjacent [simp]: "length (lerp_adjacent t xs) = length xs - 1"
  by (induction t xs rule: lerp_adjacent.induct) auto

text \<open>The outer \<^verbatim>\<open>while len(prev_x_list) > 2\<close> loop. The source steps the y list by
  the indices of the x list; the constructor has checked that both have the same length.\<close>

function de_casteljau :: "real \<Rightarrow> real list \<Rightarrow> real list \<Rightarrow> real list \<times> real list" where
  "de_casteljau t (a # b # c # xs) ys =
     de_casteljau t (lerp_adjacent t (a # b # c # xs)) (lerp_adjacent t ys)"
| "de_casteljau t [a, b] ys = ([a, b], ys)"
| "de_casteljau t [a] ys = ([a], ys)"
| "de_casteljau t [] ys = ([], ys)"
  by pat_completeness auto
termination
  by (relation "measure (\<lambda>(t, xs, ys). length xs)") auto

definition calculate_center_point ::
  "real list \<Rightarrow> real list \<Rightarrow> real \<Rightarrow> real \<Rightarrow> real \<Rightarrow> py_error + point" where
  "calculate_center_point x y side radius t =
     (case de_casteljau t x y of
        ([x0, x1], [y0, y1]) \<Rightarrow>
          (let dx = x1 - x0;
               dy = y1 - y0;
               norm = sqrt (dx ^ 2 + dy ^ 2)
           in if norm = 0 then Inl ZeroDivisionError
              else Inr ((1 - t) * x0 + t * x1 - side * dy / norm * radius,
                        (1 - t) * y0 + t * y1 + side * dx / norm * radius))
      | _ \<Rightarrow> Inl IndexError)"

subsection \<open>The offset-curve tree: \<^verbatim>\<open>class CenterCurveSegment\<close>\<close>

text \<open>One object of the class, with the fields \<^verbatim>\<open>_x\<close>, \<^verbatim>\<open>_y\<close>, ... of the source
  (an Isabelle name cannot start with an underscore). \<^verbatim>\<open>_segments\<close> is \<open>None\<close> for a
  terminal node and the list of the two children otherwise. Each node owns its children;
  no node is shared.\<close>

datatype CenterCurveSegment = CenterCurveSegment
  (ccs_x: "real list")
  (ccs_y: "real list")
  (ccs_side: real)
  (ccs_radius: real)
  (ccs_eps: real)
  (ccs_t_start: real)
  (ccs_t_end: real)
  (ccs_p_start: point)
  (ccs_p_end: point)
  (ccs_searchDir: point)
  (ccs_segments: "CenterCurveSegment list option")
  (ccs_terminalSegments: nat)
  (ccs_searchValues: "real \<times> real \<times> real \<times> real")
  (ccs_hullPoints: "point list")

text \<open>Python's \<^verbatim>\<open>min\<close> and \<^verbatim>\<open>max\<close> of a list raise \<^verbatim>\<open>ValueError\<close> on the empty list.\<close>

fun py_min :: "real list \<Rightarrow> py_error + real" where
  "py_min [] = Inl ValueError"
| "py_min (v # vs) = Inr (fold min vs v)"

fun py_max :: "real list \<Rightarrow> py_error + real" where
  "py_max [] = Inl ValueError"
| "py_max (v # vs) = Inr (fold max vs v)"

definition v_parallel :: "point \<Rightarrow> point list \<Rightarrow> real list" where
  "v_parallel searchDir pts = map (\<lambda>p. fst searchDir * fst p + snd searchDir * snd p) pts"

definition v_orthogonal :: "point \<Rightarrow> point list \<Rightarrow> real list" where
  "v_orthogonal searchDir pts = map (\<lambda>p. - snd searchDir * fst p + fst searchDir * snd p) pts"

text \<open>\<^verbatim>\<open>convexHullSearchValues\<close> on a list of hull points (the method reads only
  \<^verbatim>\<open>self._hullPoints\<close>).\<close>

definition hullSearchValues :: "point list \<Rightarrow> point \<Rightarrow> py_error + (real \<times> real \<times> real \<times> real)" where
  "hullSearchValues pts searchDir =
     (case py_min (v_parallel searchDir pts) of Inl e \<Rightarrow> Inl e | Inr a \<Rightarrow>
      case py_max (v_parallel searchDir pts) of Inl e \<Rightarrow> Inl e | Inr b \<Rightarrow>
      case py_min (v_orthogonal searchDir pts) of Inl e \<Rightarrow> Inl e | Inr c \<Rightarrow>
      case py_max (v_orthogonal searchDir pts) of Inl e \<Rightarrow> Inl e | Inr d \<Rightarrow>
        Inr (a, b, c, d))"

definition convexHullSearchValues ::
  "CenterCurveSegment \<Rightarrow> point \<Rightarrow> py_error + (real \<times> real \<times> real \<times> real)" where
  "convexHullSearchValues s searchDir = hullSearchValues (ccs_hullPoints s) searchDir"

text \<open>The union of two search-value tuples, as in the loop over \<^verbatim>\<open>self._segments[1:]\<close>.\<close>

fun merge_searchValues ::
  "real \<times> real \<times> real \<times> real \<Rightarrow> real \<times> real \<times> real \<times> real \<Rightarrow> real \<times> real \<times> real \<times> real" where
  "merge_searchValues (a, b, c, d) (a', b', c', d') = (min a a', max b b', min c c', max d d')"

fun union_searchValues ::
  "real \<times> real \<times> real \<times> real \<Rightarrow> CenterCurveSegment list \<Rightarrow> point
     \<Rightarrow> py_error + (real \<times> real \<times> real \<times> real)" where
  "union_searchValues sv [] searchDir = Inr sv"
| "union_searchValues sv (s # ss) searchDir =
     (case convexHullSearchValues s searchDir of
        Inl e \<Rightarrow> Inl e
      | Inr lsv \<Rightarrow> union_searchValues (merge_searchValues sv lsv) ss searchDir)"

text \<open>The four corners \<^verbatim>\<open>self._hullPoints\<close> of a non-terminal node.\<close>

fun box_hullPoints :: "point \<Rightarrow> real \<times> real \<times> real \<times> real \<Rightarrow> point list" where
  "box_hullPoints (sx, sy) (a, b, c, d) =
     [(sx * a - sy * c, sy * a + sx * c),
      (sx * a - sy * d, sy * a + sx * d),
      (sx * b - sy * c, sy * b + sx * c),
      (sx * b - sy * d, sy * b + sx * d)]"

text \<open>The subdivision test of the constructor (line 626).\<close>

definition not_good_enough :: "real \<Rightarrow> real \<Rightarrow> real \<Rightarrow> point \<Rightarrow> point \<Rightarrow> point \<Rightarrow> bool" where
  "not_good_enough eps t_start t_end p_start p_end p_mid =
     (let p_mid_est = ((fst p_start + fst p_end) / 2, (snd p_start + snd p_end) / 2)
      in t_end - t_start > 26 / 100
         \<or> (fst p_mid_est - fst p_mid) ^ 2 + (snd p_mid_est - snd p_mid) ^ 2 > eps ^ 2)"

text \<open>\<^verbatim>\<open>CenterCurveSegment.__init__\<close>. The recursion halves the parameter range until the
  test above fails, which no measure on the arguments bounds, so the first argument is
  fuel: the number of nested constructor calls still allowed (CPython itself stops at its
  recursion limit). \<open>None\<close> means the fuel ran out.\<close>

fun CenterCurveSegment_init ::
  "nat \<Rightarrow> real list \<Rightarrow> real list \<Rightarrow> real \<Rightarrow> real \<Rightarrow> real \<Rightarrow> real \<Rightarrow> real
     \<Rightarrow> point option \<Rightarrow> point option \<Rightarrow> (py_error + CenterCurveSegment) option" where
  "CenterCurveSegment_init 0 x y side radius eps t_start t_end p_start p_end = None"
| "CenterCurveSegment_init (Suc fuel) x y side radius eps t_start t_end p_start p_end =
     (if length x \<noteq> length y then
        Some (Inl (PyException ''x and y coordinate lists do not have the same length.''))
      else if length x < 2 then
        Some (Inl (PyException ''at least two points required to use the CenterCurveSegment''))
      else
        case (case p_start of Some p \<Rightarrow> Inr p
              | None \<Rightarrow> calculate_center_point x y side radius t_start) of
          Inl e \<Rightarrow> Some (Inl e)
        | Inr ps \<Rightarrow>
        case (case p_end of Some p \<Rightarrow> Inr p
              | None \<Rightarrow> calculate_center_point x y side radius t_end) of
          Inl e \<Rightarrow> Some (Inl e)
        | Inr pe \<Rightarrow>
        let nx = fst pe - fst ps;
            ny = snd pe - snd ps;
            n_norm = sqrt (nx ^ 2 + ny ^ 2)
        in if n_norm = 0 then Some (Inl ZeroDivisionError)
           else
             let searchDir = (nx / n_norm, ny / n_norm);
                 t_mid = (t_start + t_end) / 2
             in case calculate_center_point x y side radius t_mid of
                  Inl e \<Rightarrow> Some (Inl e)
                | Inr p_mid \<Rightarrow>
                  if not_good_enough eps t_start t_end ps pe p_mid then
                    (case CenterCurveSegment_init fuel x y side radius eps t_start t_mid
                            (Some ps) (Some p_mid) of
                       None \<Rightarrow> None
                     | Some (Inl e) \<Rightarrow> Some (Inl e)
                     | Some (Inr c0) \<Rightarrow>
                     case CenterCurveSegment_init fuel x y side radius eps t_mid t_end
                            (Some p_mid) (Some pe) of
                       None \<Rightarrow> None
                     | Some (Inl e) \<Rightarrow> Some (Inl e)
                     | Some (Inr c1) \<Rightarrow>
                       (case convexHullSearchValues c0 searchDir of
                          Inl e \<Rightarrow> Some (Inl e)
                        | Inr sv0 \<Rightarrow>
                          case union_searchValues sv0 [c1] searchDir of
                            Inl e \<Rightarrow> Some (Inl e)
                          | Inr searchValues \<Rightarrow>
                              Some (Inr (CenterCurveSegment x y side radius eps t_start t_end
                                ps pe searchDir (Some [c0, c1])
                                (ccs_terminalSegments c0 + ccs_terminalSegments c1)
                                searchValues (box_hullPoints searchDir searchValues)))))
                  else
                    (case hullSearchValues [ps, pe] searchDir of
                       Inl e \<Rightarrow> Some (Inl e)
                     | Inr searchValues \<Rightarrow>
                         Some (Inr (CenterCurveSegment x y side radius eps t_start t_end
                           ps pe searchDir None 1 searchValues [ps, pe]))))"

subsection \<open>\<^verbatim>\<open>intersectCenterCurveSegments\<close>\<close>

text \<open>The test of lines 730 and 734: \<open>own\<close> are the node's own \<^verbatim>\<open>_searchValues\<close>, \<open>other\<close>
  the other node's hull projected on this node's search direction.\<close>

definition rejected :: "real \<times> real \<times> real \<times> real \<Rightarrow> real \<times> real \<times> real \<times> real \<Rightarrow> bool" where
  "rejected own other =
     (case own of (a, b, c, d) \<Rightarrow> case other of (a', b', c', d') \<Rightarrow>
        b < a' \<or> a > b' \<or> d < c' \<or> c > d')"

text \<open>Lines 738 to 756: the intersection of the two chords, both nodes terminal.\<close>

definition leaf_intersection ::
  "CenterCurveSegment \<Rightarrow> CenterCurveSegment \<Rightarrow> py_error + (real \<times> real) option" where
  "leaf_intersection segment1 segment2 =
     (let a11 = fst (ccs_p_end segment1) - fst (ccs_p_start segment1);
          a21 = snd (ccs_p_end segment1) - snd (ccs_p_start segment1);
          a12 = fst (ccs_p_start segment2) - fst (ccs_p_end segment2);
          a22 = snd (ccs_p_start segment2) - snd (ccs_p_end segment2);
          b1 = fst (ccs_p_start segment2) - fst (ccs_p_start segment1);
          b2 = snd (ccs_p_start segment2) - snd (ccs_p_start segment1);
          det = a11 * a22 - a21 * a12
      in if det \<noteq> 0 then
           (let t1 = (a22 * b1 - a12 * b2) / det;
                t2 = (- a21 * b1 + a11 * b2) / det
            in Inr (Some ((1 - t1) * ccs_t_start segment1 + t1 * ccs_t_end segment1,
                          (1 - t2) * ccs_t_start segment2 + t2 * ccs_t_end segment2)))
         else Inl (PyException ''det = 0 case not implemented yet''))"

text \<open>Assignment to the field \<^verbatim>\<open>_segments\<close>: what \<^verbatim>\<open>subSegments1.reverse()\<close> does to
  \<^verbatim>\<open>segment1\<close>, whose list it reverses in place.\<close>

definition set_segments :: "CenterCurveSegment \<Rightarrow> CenterCurveSegment list \<Rightarrow> CenterCurveSegment" where
  "set_segments s l =
     (case s of CenterCurveSegment x y side radius eps ts te ps pe sd segs n sv hp \<Rightarrow>
        CenterCurveSegment x y side radius eps ts te ps pe sd (Some l) n sv hp)"

text \<open>
  The search. \<^verbatim>\<open>list.reverse()\<close> mutates the child list of \<^verbatim>\<open>segment1\<close>, and the nested
  calls mutate the children, so the function returns the first tree as the call leaves it,
  next to the result; the second tree is only read. \<open>intersect_outer\<close> is the loop
  \<^verbatim>\<open>for s1 in subSegments1\<close> and \<open>intersect_inner\<close> the loop \<^verbatim>\<open>for s2 in subSegments2\<close>
  for one \<open>s1\<close>. An exception leaves the function at once.

  Three branches are reachable only for objects the constructor never builds:
  \<^verbatim>\<open>None.reverse()\<close> (AttributeError), iterating \<^verbatim>\<open>None\<close> (TypeError), and two nodes with
  no children whose counters are not both 1, on which the source calls itself with the same
  pair for ever (RecursionError).
\<close>

function intersectCenterCurveSegments ::
  "CenterCurveSegment \<Rightarrow> CenterCurveSegment
     \<Rightarrow> py_error + ((real \<times> real) option \<times> CenterCurveSegment)"
and intersect_outer ::
  "CenterCurveSegment list \<Rightarrow> CenterCurveSegment list
     \<Rightarrow> py_error + ((real \<times> real) option \<times> CenterCurveSegment list)"
and intersect_inner ::
  "CenterCurveSegment \<Rightarrow> CenterCurveSegment list
     \<Rightarrow> py_error + ((real \<times> real) option \<times> CenterCurveSegment)"
where
  "intersectCenterCurveSegments segment1 segment2 =
     (case convexHullSearchValues segment2 (ccs_searchDir segment1) of
        Inl e \<Rightarrow> Inl e
      | Inr searchValues \<Rightarrow>
        if rejected (ccs_searchValues segment1) searchValues then Inr (None, segment1)
        else
          (case convexHullSearchValues segment1 (ccs_searchDir segment2) of
             Inl e \<Rightarrow> Inl e
           | Inr searchValues' \<Rightarrow>
             if rejected (ccs_searchValues segment2) searchValues' then Inr (None, segment1)
             else if ccs_terminalSegments segment1 = 1 \<and> ccs_terminalSegments segment2 = 1 then
               (case leaf_intersection segment1 segment2 of
                  Inl e \<Rightarrow> Inl e
                | Inr r \<Rightarrow> Inr (r, segment1))
             else if ccs_terminalSegments segment1 > 1 then
               (case ccs_segments segment1 of
                  None \<Rightarrow> Inl AttributeError
                | Some l1 \<Rightarrow>
                  if ccs_terminalSegments segment2 > 1 then
                    (case ccs_segments segment2 of
                       None \<Rightarrow>
                         if l1 = [] then Inr (None, set_segments segment1 []) else Inl TypeError
                     | Some l2 \<Rightarrow>
                       (case intersect_outer (rev l1) l2 of
                          Inl e \<Rightarrow> Inl e
                        | Inr (r, l1') \<Rightarrow> Inr (r, set_segments segment1 l1')))
                  else
                    (case intersect_outer (rev l1) [segment2] of
                       Inl e \<Rightarrow> Inl e
                     | Inr (r, l1') \<Rightarrow> Inr (r, set_segments segment1 l1')))
             else if ccs_terminalSegments segment2 > 1 then
               (case ccs_segments segment2 of
                  None \<Rightarrow> Inl TypeError
                | Some l2 \<Rightarrow> intersect_inner segment1 l2)
             else Inl RecursionError))"
| "intersect_outer [] l2 = Inr (None, [])"
| "intersect_outer (s1 # l1) l2 =
     (case intersect_inner s1 l2 of
        Inl e \<Rightarrow> Inl e
      | Inr (Some t, s1') \<Rightarrow> Inr (Some t, s1' # l1)
      | Inr (None, s1') \<Rightarrow>
          (case intersect_outer l1 l2 of
             Inl e \<Rightarrow> Inl e
           | Inr (r, l1') \<Rightarrow> Inr (r, s1' # l1')))"
| "intersect_inner s1 [] = Inr (None, s1)"
| "intersect_inner s1 (s2 # l2) =
     (case intersectCenterCurveSegments s1 s2 of
        Inl e \<Rightarrow> Inl e
      | Inr (Some t, s1') \<Rightarrow> Inr (Some t, s1')
      | Inr (None, s1') \<Rightarrow> intersect_inner s1' l2)"
  by pat_completeness auto

text \<open>Termination: the calls nest (the inner loop passes on the tree an earlier call
  returned), so the proof first shows, on the domain, that a call returns a tree of the
  size of the one it was given.\<close>

lemma size_set_segments:
  "ccs_segments s = Some l \<Longrightarrow> size_list size l' = size_list size l
     \<Longrightarrow> size (set_segments s l') = size s"
  by (cases s) (simp add: set_segments_def)

lemma size_list_rev [simp]: "size_list f (rev xs) = size_list f xs"
  by (induction xs) (simp_all add: size_list_append)

lemma size_segments_less: "ccs_segments s = Some l \<Longrightarrow> size_list size l + 2 \<le> size s"
  by (cases s) simp

lemma intersect_size_dom:
  "intersectCenterCurveSegments_intersect_outer_intersect_inner_dom (Inl (s1, s2)) \<Longrightarrow>
     intersectCenterCurveSegments s1 s2 = Inr (r, s1') \<Longrightarrow> size s1' = size s1"
  "intersectCenterCurveSegments_intersect_outer_intersect_inner_dom (Inr (Inl (l1, l2))) \<Longrightarrow>
     intersect_outer l1 l2 = Inr (r', l1') \<Longrightarrow> size_list size l1' = size_list size l1"
  "intersectCenterCurveSegments_intersect_outer_intersect_inner_dom (Inr (Inr (s, l))) \<Longrightarrow>
     intersect_inner s l = Inr (r'', s') \<Longrightarrow> size s' = size s"
proof (induction s1 s2 and l1 l2 and s l arbitrary: r s1' and r' l1' and r'' s'
       rule: intersectCenterCurveSegments_intersect_outer_intersect_inner.pinduct)
  case (1 segment1 segment2)
  from "1.prems" "1.IH" show ?case
    by (auto simp: intersectCenterCurveSegments.psimps[OF "1.hyps"] size_set_segments
             split: sum.splits if_splits option.splits prod.splits)
next
  case (2 l2)
  then show ?case by (simp add: intersect_outer.psimps)
next
  case (3 s1 l1 l2)
  from "3.prems" "3.IH" show ?case
    by (auto simp: intersect_outer.psimps(2)[OF "3.hyps"]
             split: sum.splits option.splits prod.splits)
next
  case (4 s1)
  then show ?case by (simp add: intersect_inner.psimps)
next
  case (5 s1 s2 l2)
  from "5.prems" "5.IH" show ?case
    by (auto simp: intersect_inner.psimps(2)[OF "5.hyps"]
             split: sum.splits option.splits prod.splits)
qed

termination intersectCenterCurveSegments
proof (relation "measure (case_sum (\<lambda>(s1, s2). size s1 + size s2)
          (case_sum (\<lambda>(l1, l2). size_list size l1 + size_list size l2)
                    (\<lambda>(s1, l2). size s1 + size_list size l2)))", goal_cases)
  case 1
  show ?case by simp
next
  case (2 segment1 segment2 sv sv' l1 l2)
  then show ?case
    using size_segments_less[of segment1 l1] size_segments_less[of segment2 l2] by simp
next
  case (3 segment1 segment2 sv sv' l1)
  then show ?case using size_segments_less[of segment1 l1] by simp
next
  case (4 segment1 segment2 sv sv' l2)
  then show ?case using size_segments_less[of segment2 l2] by simp
next
  case 5
  then show ?case by simp
next
  case 6
  then show ?case by simp
next
  case 7
  then show ?case by simp
next
  case (8 s1 s2 l2 b x y)
  then show ?case using intersect_size_dom(1)[of s1 s2 x y] by simp
qed

declare intersectCenterCurveSegments.simps [simp del]

subsection \<open>The effect object and the subpath\<close>

text \<open>The fields of \<^verbatim>\<open>RoundedCorners\<close> that \<^verbatim>\<open>add_arguments\<close> sets and the kernel reads or
  writes. \<^verbatim>\<open>self.radius\<close> is \<^verbatim>\<open>None\<close> until \<^verbatim>\<open>effect\<close> sets it, before any use.\<close>

record rc_state =
  radius :: real
  max_trim_factor :: real
  skipped_degenerated :: nat
  skipped_small_count :: nat
  skipped_small_len :: real

definition max_trim_factor_default :: real where
  "max_trim_factor_default = 90 / 100"

definition max_trim_factor_single :: real where
  "max_trim_factor_single = 98 / 100"

text \<open>The state after \<^verbatim>\<open>add_arguments\<close> and lines 262 to 276 of \<^verbatim>\<open>effect\<close>, for the option
  \<^verbatim>\<open>--radius\<close> and the number of selected nodes.\<close>

definition effect_state :: "real \<Rightarrow> nat \<Rightarrow> rc_state" where
  "effect_state options_radius n_selected =
     \<lparr> radius = \<bar>options_radius\<bar>,
       max_trim_factor =
         (if n_selected = 1 then max_trim_factor_single else max_trim_factor_default),
       skipped_degenerated = 0,
       skipped_small_count = 0,
       skipped_small_len = 10 ^ 99 \<rparr>"

text \<open>A node of a cubic superpath: \<^verbatim>\<open>[handle_in, point, handle_out]\<close>, read as
  \<^verbatim>\<open>node[0]\<close>, \<^verbatim>\<open>node[1]\<close>, \<^verbatim>\<open>node[2]\<close>.\<close>

type_synonym csp_node = "point \<times> point \<times> point"

definition node0 :: "csp_node \<Rightarrow> point" where "node0 n = fst n"
definition node1 :: "csp_node \<Rightarrow> point" where "node1 n = fst (snd n)"
definition node2 :: "csp_node \<Rightarrow> point" where "node2 n = snd (snd n)"

text \<open>Python list indexing and item assignment: a negative index counts from the end, an
  index out of range raises.\<close>

definition py_index :: "nat \<Rightarrow> int \<Rightarrow> nat option" where
  "py_index len i =
     (if 0 \<le> i \<and> i < int len then Some (nat i)
      else if - int len \<le> i \<and> i < 0 then Some (nat (int len + i))
      else None)"

definition py_getitem :: "'a list \<Rightarrow> int \<Rightarrow> py_error + 'a" where
  "py_getitem xs i =
     (case py_index (length xs) i of None \<Rightarrow> Inl IndexError | Some j \<Rightarrow> Inr (xs ! j))"

definition py_setitem :: "'a list \<Rightarrow> int \<Rightarrow> 'a \<Rightarrow> py_error + 'a list" where
  "py_setitem xs i v =
     (case py_index (length xs) i of None \<Rightarrow> Inl IndexError | Some j \<Rightarrow> Inr (xs[j := v]))"

text \<open>The slice \<^verbatim>\<open>sp[1:k]\<close>.\<close>

definition py_slice_1_to :: "'a list \<Rightarrow> int \<Rightarrow> 'a list" where
  "py_slice_1_to xs k =
     (let n = int (length xs); j = (if k < 0 then max 0 (n + k) else k)
      in drop 1 (take (nat j) xs))"

definition very_close_xy :: "point \<Rightarrow> point \<Rightarrow> bool" where
  "very_close_xy p1 p2 =
     (\<bar>fst p1 - fst p2\<bar> < 1 / 10 ^ 9 \<and> \<bar>snd p1 - snd p2\<bar> < 1 / 10 ^ 9)"

definition very_close :: "csp_node \<Rightarrow> csp_node \<Rightarrow> bool" where
  "very_close n1 n2 =
     (very_close_xy (node0 n1) (node0 n2) \<and> very_close_xy (node1 n1) (node1 n2)
      \<and> very_close_xy (node2 n1) (node2 n2))"

subsection \<open>\<^verbatim>\<open>super_node\<close>\<close>

record sn_neighbour =
  nb_idx :: int
  nb_dir :: point
  nb_handle :: point

record supernode =
  sn_idx :: nat
  sn_prev :: sn_neighbour
  sn_next :: sn_neighbour
  sn_x :: real
  sn_y :: real

text \<open>Lines 404 to 416: the index of the previous node and the copy \<^verbatim>\<open>sp_node_idx_\<close> of
  the node; \<open>None\<close> where the source counts a degenerated node (the path ends here).\<close>

definition super_node_prev ::
  "csp_node list \<Rightarrow> nat \<Rightarrow> csp_node \<Rightarrow> py_error + (int \<times> csp_node) option" where
  "super_node_prev sp node_idx nd =
     (if node_idx = 0 then
        (case py_getitem sp (int (length sp) - 1) of
           Inl e \<Rightarrow> Inl e
         | Inr lst \<Rightarrow>
           if very_close nd lst then
             (case py_getitem sp (int (length sp) - 2) of
                Inl e \<Rightarrow> Inl e
              | Inr q \<Rightarrow>
                if very_close_xy (node1 nd) (node1 q)
                then Inr (Some (int (length sp) - 3, (node0 q, node1 nd, node2 nd)))
                else Inr (Some (int (length sp) - 2, nd)))
           else Inr None)
      else Inr (Some (int node_idx - 1, nd)))"

definition super_node ::
  "rc_state \<Rightarrow> csp_node list \<Rightarrow> nat
     \<Rightarrow> py_error + (rc_state \<times> (supernode \<times> csp_node) option)" where
  "super_node st sp node_idx =
     (case py_getitem sp (int node_idx) of
        Inl e \<Rightarrow> Inl e
      | Inr nd \<Rightarrow>
        (case super_node_prev sp node_idx nd of
           Inl e \<Rightarrow> Inl e
         | Inr None \<Rightarrow> Inr (st\<lparr>skipped_degenerated := skipped_degenerated st + 1\<rparr>, None)
         | Inr (Some (prev_idx, t)) \<Rightarrow>
           if int node_idx = int (length sp) - 1 then
             Inr (st\<lparr>skipped_degenerated := skipped_degenerated st + 1\<rparr>, None)
           else
             (let next_idx = (if int node_idx + 1 \<ge> int (length sp) then 0 else int node_idx + 1)
              in case py_getitem sp prev_idx of
                   Inl e \<Rightarrow> Inl e
                 | Inr p \<Rightarrow>
                   (case py_getitem sp next_idx of
                      Inl e \<Rightarrow> Inl e
                    | Inr n \<Rightarrow>
                      (let dir1 = (fst (node2 p) - fst (node1 t), snd (node2 p) - snd (node1 t));
                           dir2 = (fst (node0 n) - fst (node1 t), snd (node0 n) - snd (node1 t));
                           handle1 = (fst (node0 t) - fst (node1 t), snd (node0 t) - snd (node1 t));
                           handle2 = (fst (node2 t) - fst (node1 t), snd (node2 t) - snd (node1 t));
                           handle1' = (if very_close_xy handle1 (0, 0) then dir1 else handle1);
                           handle2' = (if very_close_xy handle2 (0, 0) then dir2 else handle2)
                       in Inr (st,
                            Some (\<lparr> sn_idx = node_idx,
                                    sn_prev = \<lparr> nb_idx = prev_idx, nb_dir = dir1,
                                                nb_handle = handle1' \<rparr>,
                                    sn_next = \<lparr> nb_idx = next_idx, nb_dir = dir2,
                                                nb_handle = handle2' \<rparr>,
                                    sn_x = fst (node1 t), sn_y = snd (node1 t) \<rparr>, t)))))))"

subsection \<open>\<^verbatim>\<open>split_bezier_curve\<close> and \<^verbatim>\<open>arc_bezier_handles\<close>\<close>

definition lerp2 :: "real \<Rightarrow> point \<Rightarrow> point \<Rightarrow> point" where
  "lerp2 t p q = ((1 - t) * fst p + t * fst q, (1 - t) * snd p + t * snd q)"

definition split_bezier_curve ::
  "point \<Rightarrow> point \<Rightarrow> point \<Rightarrow> point \<Rightarrow> real
     \<Rightarrow> (point \<times> point \<times> point \<times> point) \<times> (point \<times> point \<times> point \<times> point)" where
  "split_bezier_curve p0 p1 p2 p3 t =
     (let p10 = lerp2 t p0 p1;
          p11 = lerp2 t p1 p2;
          p12 = lerp2 t p2 p3;
          p20 = lerp2 t p10 p11;
          p21 = lerp2 t p11 p12;
          p30 = lerp2 t p20 p21
      in ((p0, p10, p20, p30), (p30, p21, p12, p3)))"

text \<open>\<^verbatim>\<open>math.sqrt\<close> raises \<^verbatim>\<open>ValueError\<close> on a negative argument.\<close>

definition py_sqrt :: "real \<Rightarrow> py_error + real" where
  "py_sqrt v = (if v < 0 then Inl ValueError else Inr (sqrt v))"

definition arc_bezier_handles :: "point \<Rightarrow> point \<Rightarrow> point \<Rightarrow> py_error + (point \<times> point)" where
  "arc_bezier_handles p1 p4 c =
     (let x1 = fst p1; y1 = snd p1;
          x4 = fst p4; y4 = snd p4;
          xc = fst c; yc = snd c;
          ax = x1 - xc;
          ay = y1 - yc;
          bx = x4 - xc;
          by = y4 - yc;
          q1 = ax * ax + ay * ay;
          q2 = q1 + ax * bx + ay * by
      in case py_sqrt (2 * q1 * q2) of
           Inl e \<Rightarrow> Inl e
         | Inr r \<Rightarrow>
           (case py_div (4 / 3 * (r - q2)) (ax * by - ay * bx) of
              Inl e \<Rightarrow> Inl e
            | Inr k2 \<Rightarrow>
                Inr ((xc + ax - k2 * ay, yc + ay + k2 * ax),
                     (xc + bx + k2 * by, yc + by - k2 * bx))))"

subsection \<open>\<^verbatim>\<open>subpath_round_corner\<close>\<close>

text \<open>Line 532.\<close>

definition corner_side :: "csp_node \<Rightarrow> real" where
  "corner_side nd =
     (if (fst (node0 nd) - fst (node1 nd)) * (snd (node2 nd) - snd (node1 nd))
         - (snd (node0 nd) - snd (node1 nd)) * (fst (node2 nd) - fst (node1 nd)) > 0
      then - 1 else 1)"

text \<open>Lines 558 to 579, once the search has returned the parameters \<open>t\<close>: the centre, the two
  splits, the two assignments into the neighbours, the arc handles and the new list.\<close>

definition apply_fit ::
  "csp_node list \<Rightarrow> nat \<Rightarrow> int \<Rightarrow> int \<Rightarrow> csp_node \<Rightarrow> csp_node \<Rightarrow> csp_node
     \<Rightarrow> CenterCurveSegment \<Rightarrow> real \<times> real \<Rightarrow> py_error + csp_node list" where
  "apply_fit sp node_idx prev_idx next_idx prev_node nd next_node s1 t =
     (case calculate_center_point (ccs_x s1) (ccs_y s1) (ccs_side s1) (ccs_radius s1) (fst t) of
        Inl e \<Rightarrow> Inl e
      | Inr arc_c \<Rightarrow>
        (case split_bezier_curve (node1 prev_node) (node2 prev_node) (node0 nd) (node1 nd) (fst t) of
           ((u0, p1, p2, p3), u1) \<Rightarrow>
        (case split_bezier_curve (node1 nd) (node2 nd) (node0 next_node) (node1 next_node) (snd t) of
           (u2, (n0, n1, n2, u3)) \<Rightarrow>
        (case py_getitem sp prev_idx of
           Inl e \<Rightarrow> Inl e
         | Inr pn \<Rightarrow>
        (case py_setitem sp prev_idx (node0 pn, node1 pn, p1) of
           Inl e \<Rightarrow> Inl e
         | Inr sp' \<Rightarrow>
        (case py_getitem sp' next_idx of
           Inl e \<Rightarrow> Inl e
         | Inr nn \<Rightarrow>
        (case py_setitem sp' next_idx (n2, node1 nn, node2 nn) of
           Inl e \<Rightarrow> Inl e
         | Inr sp'' \<Rightarrow>
        (case arc_bezier_handles p3 n0 arc_c of
           Inl e \<Rightarrow> Inl e
         | Inr (c1, c2) \<Rightarrow>
           (let node_a = (p2, p3, c1);
                node_b = (c2, n0, n1)
            in if node_idx = 0
               then Inr ([node_a] @ [node_b] @ py_slice_1_to sp'' (prev_idx + 2))
               else Inr (take node_idx sp'' @ [node_a] @ [node_b]
                         @ drop (node_idx + 1) sp''))))))))))"

text \<open>Lines 532 to 554: the side, the two trees and the search. The first argument is
  the fuel of the two constructor calls; the tree returned is \<^verbatim>\<open>s1\<close> as the search
  leaves it.\<close>

definition corner_search ::
  "nat \<Rightarrow> real \<Rightarrow> csp_node \<Rightarrow> csp_node \<Rightarrow> csp_node
     \<Rightarrow> (py_error + ((real \<times> real) option \<times> CenterCurveSegment)) option" where
  "corner_search fuel r prev_node nd next_node =
     (let side = corner_side nd
      in case CenterCurveSegment_init fuel
                [fst (node1 prev_node), fst (node2 prev_node), fst (node0 nd), fst (node1 nd)]
                [snd (node1 prev_node), snd (node2 prev_node), snd (node0 nd), snd (node1 nd)]
                side r (1 / 1000) 0 1 None None of
           None \<Rightarrow> None
         | Some (Inl e) \<Rightarrow> Some (Inl e)
         | Some (Inr s1) \<Rightarrow>
           (case CenterCurveSegment_init fuel
                   [fst (node1 nd), fst (node2 nd), fst (node0 next_node), fst (node1 next_node)]
                   [snd (node1 nd), snd (node2 nd), snd (node0 next_node), snd (node1 next_node)]
                   side r (1 / 1000) 0 1 None None of
              None \<Rightarrow> None
            | Some (Inl e) \<Rightarrow> Some (Inl e)
            | Some (Inr s2) \<Rightarrow> Some (intersectCenterCurveSegments s1 s2)))"

text \<open>The method up to line 554: either \<^verbatim>\<open>super_node\<close> gave no supernode, or the locals
  \<^verbatim>\<open>prev_idx\<close>, \<^verbatim>\<open>next_idx\<close>, \<^verbatim>\<open>prev_node\<close>, \<^verbatim>\<open>node\<close>, \<^verbatim>\<open>next_node\<close>, \<^verbatim>\<open>s1\<close> and
  \<^verbatim>\<open>t\<close> after the search.\<close>

datatype search_outcome =
    Skipped rc_state
  | Searched rc_state int int csp_node csp_node csp_node CenterCurveSegment "(real \<times> real) option"

definition subpath_search ::
  "nat \<Rightarrow> rc_state \<Rightarrow> csp_node list \<Rightarrow> nat \<Rightarrow> (py_error + search_outcome) option" where
  "subpath_search fuel st sp node_idx =
     (case super_node st sp node_idx of
        Inl e \<Rightarrow> Some (Inl e)
      | Inr (st', None) \<Rightarrow> Some (Inr (Skipped st'))
      | Inr (st', Some (sn, sp_node_idx_)) \<Rightarrow>
        (let prev_idx = nb_idx (sn_prev sn);
             next_idx = nb_idx (sn_next sn)
         in case py_getitem sp prev_idx of
              Inl e \<Rightarrow> Some (Inl e)
            | Inr prev_node \<Rightarrow>
            (case py_getitem sp next_idx of
              Inl e \<Rightarrow> Some (Inl e)
            | Inr next_node \<Rightarrow>
            (case py_getitem sp (int node_idx) of
              Inl e \<Rightarrow> Some (Inl e)
            | Inr nd \<Rightarrow>
            (case corner_search fuel (radius st') prev_node nd next_node of
              None \<Rightarrow> None
            | Some (Inl e) \<Rightarrow> Some (Inl e)
            | Some (Inr (t, s1)) \<Rightarrow>
                Some (Inr (Searched st' prev_idx next_idx prev_node nd next_node s1 t)))))))"

text \<open>The method itself: lines 521 and 555 return \<^verbatim>\<open>sp\<close> as it is.\<close>

definition subpath_round_corner ::
  "nat \<Rightarrow> rc_state \<Rightarrow> csp_node list \<Rightarrow> nat
     \<Rightarrow> (py_error + (rc_state \<times> csp_node list)) option" where
  "subpath_round_corner fuel st sp node_idx =
     (case subpath_search fuel st sp node_idx of
        None \<Rightarrow> None
      | Some (Inl e) \<Rightarrow> Some (Inl e)
      | Some (Inr (Skipped st')) \<Rightarrow> Some (Inr (st', sp))
      | Some (Inr (Searched st' prev_idx next_idx prev_node nd next_node s1 None)) \<Rightarrow>
          Some (Inr (st', sp))
      | Some (Inr (Searched st' prev_idx next_idx prev_node nd next_node s1 (Some t))) \<Rightarrow>
          (case apply_fit sp node_idx prev_idx next_idx prev_node nd next_node s1 t of
             Inl e \<Rightarrow> Some (Inl e)
           | Inr sp' \<Rightarrow> Some (Inr (st', sp'))))"

text \<open>The loop of \<^verbatim>\<open>effect\<close> over the selected nodes of one subpath, with the index
  adjustment of \<^verbatim>\<open>round_corner\<close>: an exception of one corner is caught nowhere and ends
  the loop.\<close>

fun round_corners ::
  "nat \<Rightarrow> rc_state \<Rightarrow> csp_node list \<Rightarrow> int \<Rightarrow> nat list
     \<Rightarrow> (py_error + (rc_state \<times> csp_node list)) option" where
  "round_corners fuel st sp idx_adjust [] = Some (Inr (st, sp))"
| "round_corners fuel st sp idx_adjust (i # rest) =
     (case subpath_round_corner fuel st sp (nat (int i + idx_adjust)) of
        None \<Rightarrow> None
      | Some (Inl e) \<Rightarrow> Some (Inl e)
      | Some (Inr (st', sp')) \<Rightarrow>
          round_corners fuel st' sp' (idx_adjust + (int (length sp') - int (length sp))) rest)"

subsection \<open>Observations used in the statements\<close>

text \<open>The parameter ranges of the children of a node, in the order of \<^verbatim>\<open>_segments\<close>.\<close>

definition child_ranges :: "CenterCurveSegment \<Rightarrow> (real \<times> real) list" where
  "child_ranges s =
     (case ccs_segments s of None \<Rightarrow> [] | Some l \<Rightarrow> map (\<lambda>c. (ccs_t_start c, ccs_t_end c)) l)"

text \<open>Two calls in a row on the same two objects, as in
  \<^verbatim>\<open>intersectCenterCurveSegments(a, b); intersectCenterCurveSegments(a, b)\<close>: the second call
  gets the first tree as the first call left it. \<open>build_twice\<close> takes the two trees from
  their constructor calls.\<close>

definition intersect_twice ::
  "CenterCurveSegment \<Rightarrow> CenterCurveSegment
     \<Rightarrow> py_error + ((real \<times> real) option \<times> (real \<times> real) option)" where
  "intersect_twice segment1 segment2 =
     (case intersectCenterCurveSegments segment1 segment2 of
        Inl e \<Rightarrow> Inl e
      | Inr (r1, segment1') \<Rightarrow>
        (case intersectCenterCurveSegments segment1' segment2 of
           Inl e \<Rightarrow> Inl e
         | Inr (r2, segment1'') \<Rightarrow> Inr (r1, r2)))"

definition build_twice ::
  "(py_error + CenterCurveSegment) option \<Rightarrow> (py_error + CenterCurveSegment) option
     \<Rightarrow> (py_error + ((real \<times> real) option \<times> (real \<times> real) option)) option" where
  "build_twice a b =
     (case a of None \<Rightarrow> None | Some (Inl e) \<Rightarrow> Some (Inl e) | Some (Inr s1) \<Rightarrow>
      (case b of None \<Rightarrow> None | Some (Inl e) \<Rightarrow> Some (Inl e) | Some (Inr s2) \<Rightarrow>
         Some (intersect_twice s1 s2)))"

text \<open>What a search returns to its caller: the pair of parameters, \<^verbatim>\<open>None\<close>, or the
  exception. \<open>on_trees\<close> takes the two trees from their constructor calls.\<close>

definition search_result ::
  "CenterCurveSegment \<Rightarrow> CenterCurveSegment \<Rightarrow> py_error + (real \<times> real) option" where
  "search_result segment1 segment2 = map_sum id fst (intersectCenterCurveSegments segment1 segment2)"

definition on_trees ::
  "(CenterCurveSegment \<Rightarrow> CenterCurveSegment \<Rightarrow> 'a)
     \<Rightarrow> (py_error + CenterCurveSegment) option \<Rightarrow> (py_error + CenterCurveSegment) option
     \<Rightarrow> (py_error + 'a) option" where
  "on_trees f a b =
     (case a of None \<Rightarrow> None | Some (Inl e) \<Rightarrow> Some (Inl e) | Some (Inr s1) \<Rightarrow>
      (case b of None \<Rightarrow> None | Some (Inl e) \<Rightarrow> Some (Inl e) | Some (Inr s2) \<Rightarrow>
         Some (Inr (f s1 s2))))"

text \<open>The children of two nodes, pair by pair in the order of the two loops of lines 763
  and 764 (the children of \<^verbatim>\<open>segment1\<close> last first), each pair searched on its own.\<close>

definition children :: "CenterCurveSegment \<Rightarrow> CenterCurveSegment list" where
  "children s = (case ccs_segments s of None \<Rightarrow> [] | Some l \<Rightarrow> l)"

definition pair_results ::
  "CenterCurveSegment \<Rightarrow> CenterCurveSegment \<Rightarrow> (py_error + (real \<times> real) option) list list" where
  "pair_results segment1 segment2 =
     map (\<lambda>c1. map (\<lambda>c2. search_result c1 c2) (children segment2)) (rev (children segment1))"

text \<open>All nodes of a tree, the node itself first.\<close>

fun ccs_nodes :: "CenterCurveSegment \<Rightarrow> CenterCurveSegment list" where
  "ccs_nodes (CenterCurveSegment x y side r eps ts te ps pe sd segs n sv hp) =
     CenterCurveSegment x y side r eps ts te ps pe sd segs n sv hp
       # (case segs of None \<Rightarrow> [] | Some l \<Rightarrow> concat (map ccs_nodes l))"

text \<open>The point the constructor takes for an end of its range (lines 614 and 615), and
  the search direction of line 620.\<close>

definition start_point :: "real list \<Rightarrow> real list \<Rightarrow> real \<Rightarrow> real \<Rightarrow> real \<Rightarrow> point option \<Rightarrow> py_error + point" where
  "start_point x y side r t po = (case po of Some p \<Rightarrow> Inr p | None \<Rightarrow> calculate_center_point x y side r t)"

definition chord_dir :: "point \<Rightarrow> point \<Rightarrow> point" where
  "chord_dir ps pe =
     ((fst pe - fst ps) / sqrt ((fst pe - fst ps) ^ 2 + (snd pe - snd ps) ^ 2),
      (snd pe - snd ps) / sqrt ((fst pe - fst ps) ^ 2 + (snd pe - snd ps) ^ 2))"

text \<open>The distance between the offset point at the middle of the range and the middle of
  the chord: the square root of what line 626 compares with \<^verbatim>\<open>eps**2\<close>.\<close>

definition midpoint_deviation :: "point \<Rightarrow> point \<Rightarrow> point \<Rightarrow> real" where
  "midpoint_deviation p_start p_end p_mid =
     sqrt (((fst p_start + fst p_end) / 2 - fst p_mid) ^ 2
           + ((snd p_start + snd p_end) / 2 - snd p_mid) ^ 2)"

definition node_flat ::
  "real list \<Rightarrow> real list \<Rightarrow> real \<Rightarrow> real \<Rightarrow> real \<Rightarrow> CenterCurveSegment \<Rightarrow> bool" where
  "node_flat x y side r eps n =
     (\<exists>p_mid.
        calculate_center_point x y side r ((ccs_t_start n + ccs_t_end n) / 2) = Inr p_mid
        \<and> calculate_center_point x y side r (ccs_t_start n) = Inr (ccs_p_start n)
        \<and> calculate_center_point x y side r (ccs_t_end n) = Inr (ccs_p_end n)
        \<and> (ccs_segments n = None)
            = (\<not> not_good_enough eps (ccs_t_start n) (ccs_t_end n)
                   (ccs_p_start n) (ccs_p_end n) p_mid)
        \<and> (ccs_terminalSegments n = 1) = (ccs_segments n = None))"

text \<open>Two nodes of one curve: same control points, side and radius.\<close>

definition same_curve :: "CenterCurveSegment \<Rightarrow> CenterCurveSegment \<Rightarrow> bool" where
  "same_curve s s' =
     (ccs_x s' = ccs_x s \<and> ccs_y s' = ccs_y s \<and> ccs_side s' = ccs_side s
      \<and> ccs_radius s' = ccs_radius s)"

text \<open>The point at which \<^verbatim>\<open>split_bezier_curve\<close> cuts: the end of the first part and the
  start of the second.\<close>

definition trim_point :: "point \<Rightarrow> point \<Rightarrow> point \<Rightarrow> point \<Rightarrow> real \<Rightarrow> point" where
  "trim_point p0 p1 p2 p3 t = snd (snd (snd (fst (split_bezier_curve p0 p1 p2 p3 t))))"

text \<open>The arc handles as the specification words them: with \<open>a = P - C\<close>, \<open>b = N - C\<close>,
  \<open>q1 = a \<cdot> a\<close>, \<open>q2 = q1 + a \<cdot> b\<close> and \<open>k2 = (4/3) * (sqrt (2 * q1 * q2) - q2) / (a \<times> b)\<close>,
  the handles are \<open>P + k2 * rot90 a\<close> and \<open>N - k2 * rot90 b\<close>.\<close>

definition rot90 :: "point \<Rightarrow> point" where
  "rot90 v = (- snd v, fst v)"

definition spec_arc_handles :: "point \<Rightarrow> point \<Rightarrow> point \<Rightarrow> point \<times> point" where
  "spec_arc_handles P N C =
     (let a = (fst P - fst C, snd P - snd C);
          b = (fst N - fst C, snd N - snd C);
          q1 = fst a * fst a + snd a * snd a;
          q2 = q1 + (fst a * fst b + snd a * snd b);
          k2 = (4 / 3) * (sqrt (2 * q1 * q2) - q2) / (fst a * snd b - snd a * fst b)
      in ((fst P + k2 * fst (rot90 a), snd P + k2 * snd (rot90 a)),
          (fst N - k2 * fst (rot90 b), snd N - k2 * snd (rot90 b))))"

text \<open>The coordinates of a point along and across a direction, as
  \<^verbatim>\<open>convexHullSearchValues\<close> computes them, and the box test: a point lies in the box of a
  node when both coordinates, in the frame of the node's search direction, lie within the
  node's \<^verbatim>\<open>_searchValues\<close>.\<close>

definition par_of :: "point \<Rightarrow> point \<Rightarrow> real" where
  "par_of d q = fst d * fst q + snd d * snd q"

definition orth_of :: "point \<Rightarrow> point \<Rightarrow> real" where
  "orth_of d q = - snd d * fst q + fst d * snd q"

definition in_values :: "real \<times> real \<times> real \<times> real \<Rightarrow> point \<Rightarrow> point \<Rightarrow> bool" where
  "in_values sv d q =
     (case sv of (a, b, c, e) \<Rightarrow>
        a \<le> par_of d q \<and> par_of d q \<le> b \<and> c \<le> orth_of d q \<and> orth_of d q \<le> e)"

definition in_box :: "CenterCurveSegment \<Rightarrow> point \<Rightarrow> bool" where
  "in_box s q = in_values (ccs_searchValues s) (ccs_searchDir s) q"

text \<open>The chord of a terminal node, and the polyline of a subtree: the chords of its
  terminal nodes.\<close>

definition on_chord :: "CenterCurveSegment \<Rightarrow> point \<Rightarrow> bool" where
  "on_chord l q = (\<exists>u. 0 \<le> u \<and> u \<le> 1 \<and> q = lerp2 u (ccs_p_start l) (ccs_p_end l))"

definition chord_points :: "CenterCurveSegment \<Rightarrow> point set" where
  "chord_points s = {q. \<exists>l \<in> set (ccs_nodes s). ccs_segments l = None \<and> on_chord l q}"

text \<open>The tree a constructor call returned contains the node.\<close>

definition has_node :: "CenterCurveSegment \<Rightarrow> (py_error + CenterCurveSegment) option \<Rightarrow> bool" where
  "has_node n res = (case res of Some (Inr t) \<Rightarrow> n \<in> set (ccs_nodes t) | _ \<Rightarrow> False)"

text \<open>What the constructor establishes for every node: a unit search direction, the hull
  points of lines 665 and 687, and search values that contain those of the children.\<close>

definition sv_within :: "real \<times> real \<times> real \<times> real \<Rightarrow> real \<times> real \<times> real \<times> real \<Rightarrow> bool" where
  "sv_within inner outer =
     (case inner of (a, b, c, e) \<Rightarrow> case outer of (a', b', c', e') \<Rightarrow>
        a' \<le> a \<and> b \<le> b' \<and> c' \<le> c \<and> e \<le> e')"

fun ccs_wf :: "CenterCurveSegment \<Rightarrow> bool" where
  "ccs_wf (CenterCurveSegment x y side r eps ts te ps pe sd segs k sv hp) =
     ((fst sd)\<^sup>2 + (snd sd)\<^sup>2 = 1
      \<and> (case segs of
            None \<Rightarrow> hp = [ps, pe] \<and> hullSearchValues [ps, pe] sd = Inr sv
          | Some l \<Rightarrow>
              hp = box_hullPoints sd sv
              \<and> (\<forall>c \<in> set l. ccs_wf c
                    \<and> (\<exists>svc. convexHullSearchValues c sd = Inr svc \<and> sv_within svc sv))))"

definition covered :: "point list \<Rightarrow> point \<Rightarrow> bool" where
  "covered pts q = (\<forall>d. \<exists>p \<in> set pts. par_of d p \<le> par_of d q)"

section \<open>Concrete inputs\<close>

text \<open>Three subpaths. Every segment has four distinct, equally spaced control points, so
  its tangent never vanishes: \<open>straight_sp\<close> runs straight through its middle node,
  \<open>corner_sp\<close> turns by a right angle at its middle node, and \<open>dup_sp\<close> is \<open>corner_sp\<close>
  moved, behind a first node that is given twice.\<close>

definition straight_sp :: "csp_node list" where
  "straight_sp =
     [((-3, 0), (-3, 0), (-2, 0)), ((-1, 0), (0, 0), (1, 0)), ((2, 0), (3, 0), (3, 0))]"

definition corner_sp :: "csp_node list" where
  "corner_sp =
     [((-3, 0), (-3, 0), (-2, 0)), ((-1, 0), (0, 0), (0, 1)), ((0, 2), (0, 3), (0, 3))]"

definition dup_sp :: "csp_node list" where
  "dup_sp =
     [((0, 0), (0, 0), (0, 0)), ((0, 0), (0, 0), (1, 0)), ((2, 0), (3, 0), (3, 1)),
      ((3, 2), (3, 3), (3, 3))]"

text \<open>The last terminal node of the first tree of \<open>straight_sp\<close> at radius 1.\<close>

definition straight_leaf1 :: CenterCurveSegment where
  "straight_leaf1 =
     CenterCurveSegment [-3, -2, -1, 0] [0, 0, 0, 0] 1 1 (1 / 1000) (3 / 4) 1
       (- (3 / 4), 1) (0, 1) (1, 0) None 1 (- (3 / 4), 0, 1, 1) [(- (3 / 4), 1), (0, 1)]"

text \<open>The terminal nodes of the two trees of \<open>corner_sp\<close> at radius \<open>3 / 8\<close> that meet
  in the centre \<open>(-3/8, 3/8)\<close>.\<close>

definition corner_leaf1 :: CenterCurveSegment where
  "corner_leaf1 =
     CenterCurveSegment [-3, -2, -1, 0] [0, 0, 0, 0] 1 (3 / 8) (1 / 1000) (3 / 4) 1
       (- (3 / 4), 3 / 8) (0, 3 / 8) (1, 0) None 1 (- (3 / 4), 0, 3 / 8, 3 / 8)
       [(- (3 / 4), 3 / 8), (0, 3 / 8)]"

definition corner_leaf2 :: CenterCurveSegment where
  "corner_leaf2 =
     CenterCurveSegment [0, 0, 0, 0] [0, 1, 2, 3] 1 (3 / 8) (1 / 1000) 0 (1 / 4)
       (- (3 / 8), 0) (- (3 / 8), 3 / 4) (0, 1) None 1 (0, 3 / 4, 3 / 8, 3 / 8)
       [(- (3 / 8), 0), (- (3 / 8), 3 / 4)]"

text \<open>A curved segment whose tangent has a rational length at every rational parameter
  (its derivative is three times \<open>(1 - u\<^sup>2, 2 * u)\<close> with \<open>u = (t - 3/8) / 64\<close>), and the
  terminal node of its tree, at radius 1 on side 1, for the range from \<open>1/4\<close> to \<open>1/2\<close>.\<close>

definition ph_x :: "real list" where
  "ph_x = [0, 262135 / 262144, 262147 / 131072, 786413 / 262144]"

definition ph_y :: "real list" where
  "ph_y = [0, - (3 / 256), - (1 / 128), 3 / 256]"

definition ph_leaf :: CenterCurveSegment where
  "ph_leaf =
     CenterCurveSegment ph_x ph_y 1 1 (1 / 1000) (1 / 4) (1 / 2)
       (207229550579 / 274878955520, 133430781 / 134218240)
       (205620510713 / 137439477760, 133430781 / 134218240)
       (1, 0) None 1
       (207229550579 / 274878955520, 205620510713 / 137439477760,
        133430781 / 134218240, 133430781 / 134218240)
       [(207229550579 / 274878955520, 133430781 / 134218240),
        (205620510713 / 137439477760, 133430781 / 134218240)]"

text \<open>The equations that evaluate the model on a concrete input.\<close>

lemmas eval_defs =
  calculate_center_point_def Let_def not_good_enough_def numeral_3_eq_3 hullSearchValues_def
  v_parallel_def v_orthogonal_def convexHullSearchValues_def subpath_round_corner_def
  subpath_search_def corner_search_def super_node_def super_node_prev_def py_index_def py_getitem_def
  py_setitem_def py_slice_1_to_def node0_def node1_def node2_def very_close_def
  very_close_xy_def corner_side_def effect_state_def intersectCenterCurveSegments.simps
  rejected_def leaf_intersection_def set_segments_def apply_fit_def split_bezier_curve_def
  lerp2_def arc_bezier_handles_def py_sqrt_def py_div_def

section \<open>Auxiliary facts\<close>

text \<open>The two loops of the search: an exception or a result of any iteration ends the loop,
  and \<^verbatim>\<open>None\<close> passes on to the next iteration.\<close>

lemma intersect_inner_append:
  "intersect_inner s1 (l2a @ l2b) =
     (case intersect_inner s1 l2a of
        Inl e \<Rightarrow> Inl e
      | Inr (Some t, s1') \<Rightarrow> Inr (Some t, s1')
      | Inr (None, s1') \<Rightarrow> intersect_inner s1' l2b)"
  by (induction l2a arbitrary: s1) (auto split: sum.splits option.splits prod.splits)

lemma intersect_outer_append:
  "intersect_outer (l1a @ l1b) l2 =
     (case intersect_outer l1a l2 of
        Inl e \<Rightarrow> Inl e
      | Inr (Some t, l1a') \<Rightarrow> Inr (Some t, l1a' @ l1b)
      | Inr (None, l1a') \<Rightarrow>
          (case intersect_outer l1b l2 of
             Inl e \<Rightarrow> Inl e
           | Inr (r, l1b') \<Rightarrow> Inr (r, l1a' @ l1b')))"
  by (induction l1a) (auto split: sum.splits option.splits prod.splits)

text \<open>The search at the middle node of \<open>straight_sp\<close>, and the search on the same two
  segments with the one after the node as \<^verbatim>\<open>segment1\<close>.\<close>

lemma straight_sp_search:
  "corner_search 3 1 (straight_sp ! 0) (straight_sp ! 1) (straight_sp ! 2)
     = Some (Inl (PyException ''det = 0 case not implemented yet''))"
  by (simp add: eval_defs straight_sp_def)

lemma straight_swapped_search:
  "on_trees search_result
     (CenterCurveSegment_init 3 [0, 1, 2, 3] [0, 0, 0, 0] 1 1 (1 / 1000) 0 1 None None)
     (CenterCurveSegment_init 3 [-3, -2, -1, 0] [0, 0, 0, 0] 1 1 (1 / 1000) 0 1 None None)
   = Some (Inr (Inl (PyException ''det = 0 case not implemented yet'')))"
  by (simp add: eval_defs on_trees_def search_result_def)

lemma straight_swapped_pairs:
  "on_trees pair_results
     (CenterCurveSegment_init 3 [0, 1, 2, 3] [0, 0, 0, 0] 1 1 (1 / 1000) 0 1 None None)
     (CenterCurveSegment_init 3 [-3, -2, -1, 0] [0, 0, 0, 0] 1 1 (1 / 1000) 0 1 None None)
   = Some (Inr [[Inr None, Inr None],
                [Inr None, Inl (PyException ''det = 0 case not implemented yet'')]])"
  by (simp add: eval_defs on_trees_def search_result_def pair_results_def children_def)

lemma super_node_state:
  "super_node st sp i = Inr (st', Some r) \<Longrightarrow> st' = st"
  by (auto simp: super_node_def Let_def split: sum.splits option.splits if_splits prod.splits)

text \<open>Square roots that occur in the concrete inputs.\<close>

lemma sqrt_225: "sqrt 225 = 15"
  by (rule real_sqrt_unique) simp_all
lemma sqrt_576: "sqrt 576 = 24"
  by (rule real_sqrt_unique) simp_all
lemma sqrt_2304: "sqrt 2304 = 48"
  by (rule real_sqrt_unique) simp_all

lemma sqrt_81_2048: "sqrt (81 / 2048) = 9 / 64 * sqrt 2"
  by (rule real_sqrt_unique) (simp_all add: power_mult_distrib power_divide)

lemma sqrt_189: "sqrt (1275989841 / 8388608) = 35721 / 4096 * sqrt 2"
  by (rule real_sqrt_unique) (simp_all add: power_mult_distrib power_divide)

lemma corner_sp_fit_189:
  "subpath_round_corner 3 (effect_state (189 / 64) 2) corner_sp 1
     = Some (Inr (effect_state (189 / 64) 2,
         [((-3, 0), (-3, 0), (- (191 / 64), 0)),
          ((- (95 / 32), 0), (- (189 / 64), 0), (63 / 16 * (sqrt 2 - 1) - 189 / 64, 0)),
          ((0, 189 / 64 - 63 / 16 * (sqrt 2 - 1)), (0, 189 / 64), (0, 95 / 32)),
          ((0, 191 / 64), (0, 3), (0, 3))]))"
  by (simp add: eval_defs corner_sp_def sqrt_189)

lemma corner_sp_search_189:
  "map_option (map_sum id fst)
        (corner_search 3 (189 / 64) (corner_sp ! 0) (corner_sp ! 1) (corner_sp ! 2))
     = Some (Inr (Some (1 / 64, 63 / 64)))"
  by (simp add: eval_defs corner_sp_def)

text \<open>\<open>corner_sp\<close> at radius 4, more than the length 3 of its segments.\<close>

lemma corner_sp_search_4:
  "map_option (map_sum id fst) (corner_search 3 4 (corner_sp ! 0) (corner_sp ! 1) (corner_sp ! 2))
     = Some (Inr None)
   \<and> subpath_round_corner 3 (effect_state 4 2) corner_sp 1
     = Some (Inr (effect_state 4 2, corner_sp))
   \<and> round_corners 3 (effect_state 4 1) corner_sp 0 [1]
     = Some (Inr (effect_state 4 1, corner_sp))"
  by (simp add: eval_defs corner_sp_def)

text \<open>\<^verbatim>\<open>max_trim_factor\<close> is passed on and read nowhere; the counters of the corners
  without room are written nowhere.\<close>

lemma super_node_trim:
  "super_node (st\<lparr>max_trim_factor := m\<rparr>) sp i
     = map_sum id (map_prod (max_trim_factor_update (\<lambda>_. m)) id) (super_node st sp i)"
  by (simp add: super_node_def Let_def split: sum.splits option.splits prod.splits)

lemma subpath_search_trim:
  "subpath_search fuel (st\<lparr>max_trim_factor := m\<rparr>) sp i
     = map_option (map_sum id (\<lambda>out. case out of
           Skipped s \<Rightarrow> Skipped (s\<lparr>max_trim_factor := m\<rparr>)
         | Searched s a b c d e f g \<Rightarrow> Searched (s\<lparr>max_trim_factor := m\<rparr>) a b c d e f g))
         (subpath_search fuel st sp i)"
  unfolding subpath_search_def super_node_trim
  by (cases "super_node st sp i")
     (auto simp: Let_def split: sum.splits option.splits prod.splits)

lemma super_node_counters:
  "super_node st sp i = Inr (st', r) \<Longrightarrow>
     skipped_small_count st' = skipped_small_count st
     \<and> skipped_small_len st' = skipped_small_len st
     \<and> max_trim_factor st' = max_trim_factor st \<and> radius st' = radius st"
  by (auto simp: super_node_def Let_def split: sum.splits option.splits if_splits prod.splits)

lemma subpath_round_corner_counters:
  "subpath_round_corner fuel st sp i = Some (Inr (st', sp')) \<Longrightarrow>
     skipped_small_count st' = skipped_small_count st
     \<and> skipped_small_len st' = skipped_small_len st
     \<and> max_trim_factor st' = max_trim_factor st \<and> radius st' = radius st"
  by (auto simp: subpath_round_corner_def subpath_search_def Let_def
           dest!: super_node_counters
           split: sum.splits option.splits if_splits prod.splits search_outcome.splits)

text \<open>What a constructor call that returns a node has done.\<close>

lemma init_SucE:
  assumes "CenterCurveSegment_init (Suc fuel) x y side r eps ts te pso peo = Some (Inr s)"
  obtains (leaf) ps pe p_mid sv where
      "length x = length y" "2 \<le> length x"
      "start_point x y side r ts pso = Inr ps" "start_point x y side r te peo = Inr pe"
      "sqrt ((fst pe - fst ps) ^ 2 + (snd pe - snd ps) ^ 2) \<noteq> 0"
      "calculate_center_point x y side r ((ts + te) / 2) = Inr p_mid"
      "\<not> not_good_enough eps ts te ps pe p_mid"
      "hullSearchValues [ps, pe] (chord_dir ps pe) = Inr sv"
      "s = CenterCurveSegment x y side r eps ts te ps pe (chord_dir ps pe) None 1 sv [ps, pe]"
  | (inner) ps pe p_mid c0 c1 sv0 sv where
      "length x = length y" "2 \<le> length x"
      "start_point x y side r ts pso = Inr ps" "start_point x y side r te peo = Inr pe"
      "sqrt ((fst pe - fst ps) ^ 2 + (snd pe - snd ps) ^ 2) \<noteq> 0"
      "calculate_center_point x y side r ((ts + te) / 2) = Inr p_mid"
      "not_good_enough eps ts te ps pe p_mid"
      "CenterCurveSegment_init fuel x y side r eps ts ((ts + te) / 2) (Some ps) (Some p_mid) = Some (Inr c0)"
      "CenterCurveSegment_init fuel x y side r eps ((ts + te) / 2) te (Some p_mid) (Some pe) = Some (Inr c1)"
      "convexHullSearchValues c0 (chord_dir ps pe) = Inr sv0"
      "union_searchValues sv0 [c1] (chord_dir ps pe) = Inr sv"
      "s = CenterCurveSegment x y side r eps ts te ps pe (chord_dir ps pe) (Some [c0, c1])
             (ccs_terminalSegments c0 + ccs_terminalSegments c1) sv
             (box_hullPoints (chord_dir ps pe) sv)"
  using assms
  unfolding CenterCurveSegment_init.simps start_point_def[symmetric] chord_dir_def Let_def
  by (auto split: if_splits sum.splits option.splits simp del: union_searchValues.simps)

lemma not_good_enough_deviation:
  assumes "0 \<le> eps"
  shows "not_good_enough eps ts te ps pe pm
           = (te - ts > 26 / 100 \<or> midpoint_deviation ps pe pm > eps)"
proof -
  have "eps = sqrt (eps ^ 2)" using assms by simp
  then have "\<And>a. (eps < sqrt a) = (eps ^ 2 < a)"
    by (metis real_sqrt_less_iff)
  then show ?thesis
    by (simp add: not_good_enough_def midpoint_deviation_def Let_def)
qed

lemma ccs_nodes_self: "s \<in> set (ccs_nodes s)"
  by (cases s) simp

lemma ccs_nodes_leaf:
  "set (ccs_nodes (CenterCurveSegment x y side r eps ts te ps pe sd None k sv hp))
     = {CenterCurveSegment x y side r eps ts te ps pe sd None k sv hp}"
  by simp

lemma ccs_nodes_inner:
  "set (ccs_nodes (CenterCurveSegment x y side r eps ts te ps pe sd (Some [c0, c1]) k sv hp))
     = insert (CenterCurveSegment x y side r eps ts te ps pe sd (Some [c0, c1]) k sv hp)
         (set (ccs_nodes c0) \<union> set (ccs_nodes c1))"
  by simp

lemma init_terminalSegments:
  "CenterCurveSegment_init fuel x y side r eps ts te pso peo = Some (Inr s)
     \<Longrightarrow> 1 \<le> ccs_terminalSegments s \<and> ((ccs_terminalSegments s = 1) = (ccs_segments s = None))"
proof (induction fuel arbitrary: ts te pso peo s)
  case 0
  then show ?case by simp
next
  case (Suc fuel)
  from Suc.prems show ?case
  proof (cases rule: init_SucE)
    case leaf
    then show ?thesis by simp
  next
    case (inner ps pe p_mid c0 c1 sv0 sv)
    from Suc.IH[OF inner(8)] Suc.IH[OF inner(9)] inner(12) show ?thesis by simp
  qed
qed

lemma init_nodes_flat:
  "CenterCurveSegment_init fuel x y side r eps ts te pso peo = Some (Inr s)
     \<Longrightarrow> start_point x y side r ts pso = calculate_center_point x y side r ts
     \<Longrightarrow> start_point x y side r te peo = calculate_center_point x y side r te
     \<Longrightarrow> n \<in> set (ccs_nodes s) \<Longrightarrow> node_flat x y side r eps n"
proof (induction fuel arbitrary: ts te pso peo s)
  case 0
  then show ?case by simp
next
  case (Suc fuel)
  from Suc.prems(1) show ?case
  proof (cases rule: init_SucE)
    case (leaf ps pe p_mid sv)
    with Suc.prems have "n = s" by simp
    with leaf Suc.prems(2,3) show ?thesis by (simp add: node_flat_def)
  next
    case (inner ps pe p_mid c0 c1 sv0 sv)
    have ps: "calculate_center_point x y side r ts = Inr ps"
      and pe: "calculate_center_point x y side r te = Inr pe"
      using inner(3,4) Suc.prems(2,3) by simp_all
    from Suc.prems(4) inner(12)
    consider "n = s" | "n \<in> set (ccs_nodes c0)" | "n \<in> set (ccs_nodes c1)" by auto
    then show ?thesis
    proof cases
      case 1
      from init_terminalSegments[OF inner(8)] init_terminalSegments[OF inner(9)]
      have "ccs_terminalSegments c0 + ccs_terminalSegments c1 \<noteq> 1" by simp
      with 1 inner ps pe show ?thesis by (simp add: node_flat_def)
    next
      case 2
      show ?thesis
        by (rule Suc.IH[OF inner(8) _ _ 2]) (simp_all add: start_point_def ps inner(6))
    next
      case 3
      show ?thesis
        by (rule Suc.IH[OF inner(9) _ _ 3]) (simp_all add: start_point_def pe inner(6))
    qed
  qed
qed

text \<open>The search changes neither the control points nor the side nor the radius of the
  first tree.\<close>

lemma same_curve_refl [simp]: "same_curve s s"
  by (simp add: same_curve_def)

lemma same_curve_set_segments [simp]: "same_curve s (set_segments s l)"
  by (cases s) (simp add: same_curve_def set_segments_def)

lemma same_curve_trans: "same_curve a b \<Longrightarrow> same_curve b c \<Longrightarrow> same_curve a c"
  by (simp add: same_curve_def)

lemma intersect_same_curve:
  "intersectCenterCurveSegments s1 s2 = Inr (r, s1') \<Longrightarrow> same_curve s1 s1'"
  "intersect_outer l1 l2 = Inr (r', l1') \<Longrightarrow> True"
  "intersect_inner s l = Inr (r'', s') \<Longrightarrow> same_curve s s'"
proof (induction s1 s2 and l1 l2 and s l arbitrary: r s1' and r' l1' and r'' s'
       rule: intersectCenterCurveSegments_intersect_outer_intersect_inner.induct)
  case (1 segment1 segment2)
  from "1.prems" "1.IH"(3) show ?case
    by (auto simp: intersectCenterCurveSegments.simps[of segment1 segment2]
             split: sum.splits if_splits option.splits prod.splits)
next
  case (5 s1 s2 l2)
  from "5.prems" "5.IH" show ?case
    by (auto split: sum.splits option.splits prod.splits intro: same_curve_trans)
qed simp_all

lemma init_fields:
  "CenterCurveSegment_init fuel x y side r eps ts te pso peo = Some (Inr s)
     \<Longrightarrow> ccs_x s = x \<and> ccs_y s = y \<and> ccs_side s = side \<and> ccs_radius s = r
         \<and> ccs_eps s = eps \<and> ccs_t_start s = ts \<and> ccs_t_end s = te"
proof (cases fuel)
  case 0
  then show "CenterCurveSegment_init fuel x y side r eps ts te pso peo = Some (Inr s) \<Longrightarrow> ?thesis"
    by simp
next
  case (Suc k)
  assume "CenterCurveSegment_init fuel x y side r eps ts te pso peo = Some (Inr s)"
  then have "CenterCurveSegment_init (Suc k) x y side r eps ts te pso peo = Some (Inr s)"
    using Suc by simp
  then show ?thesis by (cases rule: init_SucE) simp_all
qed

lemma corner_search_curve:
  assumes "corner_search fuel r pn nd nn = Some (Inr (t, s1))"
  shows "ccs_x s1 = [fst (node1 pn), fst (node2 pn), fst (node0 nd), fst (node1 nd)]
         \<and> ccs_y s1 = [snd (node1 pn), snd (node2 pn), snd (node0 nd), snd (node1 nd)]
         \<and> ccs_side s1 = corner_side nd \<and> ccs_radius s1 = r"
  using assms
  by (auto simp: corner_search_def Let_def same_curve_def
           split: option.splits sum.splits
           dest!: init_fields intersect_same_curve(1))

lemma calculate_center_point_cubic:
  "calculate_center_point [x0, x1, x2, x3] [y0, y1, y2, y3] side r t = Inr c
     \<Longrightarrow> r = 0
     \<Longrightarrow> c = snd (snd (snd (fst (split_bezier_curve (x0, y0) (x1, y1) (x2, y2) (x3, y3) t))))"
  by (auto simp: calculate_center_point_def split_bezier_curve_def lerp2_def Let_def
           split: if_splits)

lemma calculate_center_point_cubic_error:
  "calculate_center_point [x0, x1, x2, x3] [y0, y1, y2, y3] side r t = Inl e
     \<Longrightarrow> e = ZeroDivisionError"
  by (auto simp: calculate_center_point_def Let_def split: if_splits)

lemma arc_bezier_handles_center: "arc_bezier_handles p n p = Inl ZeroDivisionError"
  by (simp add: arc_bezier_handles_def py_sqrt_def py_div_def Let_def)

lemma py_setitem_getitem:
  "py_getitem xs i = Inr v \<Longrightarrow> \<exists>xs'. py_setitem xs i w = Inr xs' \<and> length xs' = length xs"
  by (auto simp: py_getitem_def py_setitem_def split: option.splits)

lemma py_getitem_length:
  "py_getitem xs i = Inr v \<Longrightarrow> length xs' = length xs \<Longrightarrow> \<exists>v'. py_getitem xs' i = Inr v'"
  by (auto simp: py_getitem_def split: option.splits)

lemma subpath_searchE:
  assumes "subpath_search fuel st sp i = Some (Inr (Searched st' pidx nidx pn nd nn s1 t))"
  shows "py_getitem sp pidx = Inr pn \<and> py_getitem sp nidx = Inr nn
         \<and> py_getitem sp (int i) = Inr nd \<and> st' = st
         \<and> corner_search fuel (radius st) pn nd nn = Some (Inr (t, s1))"
  using assms
  by (auto simp: subpath_search_def Let_def dest!: super_node_state
           split: sum.splits option.splits prod.splits)

lemma apply_fit_radius_zero:
  assumes "corner_search fuel 0 pn nd nn = Some (Inr (Some t, s1))"
    and "py_getitem sp pidx = Inr pn" and "py_getitem sp nidx = Inr nn"
  shows "apply_fit sp i pidx nidx pn nd nn s1 t = Inl ZeroDivisionError"
proof -
  note c = corner_search_curve[OF assms(1)]
  show ?thesis
  proof (cases "calculate_center_point (ccs_x s1) (ccs_y s1) (ccs_side s1) (ccs_radius s1) (fst t)")
    case (Inl e)
    with c have "e = ZeroDivisionError" by (auto dest: calculate_center_point_cubic_error)
    with Inl show ?thesis by (simp add: apply_fit_def)
  next
    case (Inr arc_c)
    with c have a: "arc_c = snd (snd (snd (fst (split_bezier_curve (node1 pn) (node2 pn)
                       (node0 nd) (node1 nd) (fst t)))))"
      using calculate_center_point_cubic[of "fst (node1 pn)" "fst (node2 pn)" "fst (node0 nd)"
          "fst (node1 nd)" "snd (node1 pn)" "snd (node2 pn)" "snd (node0 nd)" "snd (node1 nd)"
          "corner_side nd" 0 "fst t" arc_c]
      by simp
    obtain u0 p1 p2 p3 u1 where s1: "split_bezier_curve (node1 pn) (node2 pn) (node0 nd)
        (node1 nd) (fst t) = ((u0, p1, p2, p3), u1)" by (metis prod_cases4 surj_pair)
    obtain u2 n0 n1 n2 u3 where s2: "split_bezier_curve (node1 nd) (node2 nd) (node0 nn)
        (node1 nn) (snd t) = (u2, (n0, n1, n2, u3))" by (metis prod_cases4 surj_pair)
    from a s1 have ac: "arc_c = p3" by simp
    from py_setitem_getitem[OF assms(2)] obtain sp1 where
      sp1: "py_setitem sp pidx (node0 pn, node1 pn, p1) = Inr sp1" "length sp1 = length sp"
      by blast
    from py_getitem_length[OF assms(3) sp1(2)] obtain nn' where
      nn': "py_getitem sp1 nidx = Inr nn'" by blast
    from py_setitem_getitem[OF nn'] obtain sp2 where
      sp2: "py_setitem sp1 nidx (n2, node1 nn', node2 nn') = Inr sp2" by blast
    show ?thesis
      by (simp add: apply_fit_def Inr s1 s2 assms(2) sp1 nn' sp2 ac arc_bezier_handles_center)
  qed
qed

lemma arc_bezier_handles_spec:
  "arc_bezier_handles P N C = Inr (c1, c2) \<Longrightarrow> (c1, c2) = spec_arc_handles P N C"
  by (auto simp: arc_bezier_handles_def spec_arc_handles_def rot90_def py_sqrt_def py_div_def
        Let_def add.assoc split: if_splits)

lemma split_second_start:
  "fst (snd (split_bezier_curve p0 p1 p2 p3 t)) = trim_point p0 p1 p2 p3 t"
  by (simp add: split_bezier_curve_def trim_point_def Let_def)

lemma py_getitem_nat: "py_getitem xs (int i) = Inr v \<Longrightarrow> i < length xs"
  by (auto simp: py_getitem_def py_index_def split: option.splits if_splits)

lemma py_setitem_length: "py_setitem xs i w = Inr xs' \<Longrightarrow> length xs' = length xs"
  by (auto simp: py_setitem_def split: option.splits)

lemma apply_fit_nodes:
  assumes "apply_fit sp i pidx nidx pn nd nn s1 t = Inr sp'" and "i < length sp"
  shows "\<exists>C. calculate_center_point (ccs_x s1) (ccs_y s1) (ccs_side s1) (ccs_radius s1) (fst t)
              = Inr C
           \<and> node1 (sp' ! i) = trim_point (node1 pn) (node2 pn) (node0 nd) (node1 nd) (fst t)
           \<and> node1 (sp' ! Suc i) = trim_point (node1 nd) (node2 nd) (node0 nn) (node1 nn) (snd t)
           \<and> (node2 (sp' ! i), node0 (sp' ! Suc i))
               = spec_arc_handles
                   (trim_point (node1 pn) (node2 pn) (node0 nd) (node1 nd) (fst t))
                   (trim_point (node1 nd) (node2 nd) (node0 nn) (node1 nn) (snd t)) C"
proof -
  obtain u0 p1 p2 p3 u1 where s1: "split_bezier_curve (node1 pn) (node2 pn) (node0 nd)
      (node1 nd) (fst t) = ((u0, p1, p2, p3), u1)" by (metis prod_cases4 surj_pair)
  obtain u2 n0 n1 n2 u3 where s2: "split_bezier_curve (node1 nd) (node2 nd) (node0 nn)
      (node1 nn) (snd t) = (u2, (n0, n1, n2, u3))" by (metis prod_cases4 surj_pair)
  have P: "trim_point (node1 pn) (node2 pn) (node0 nd) (node1 nd) (fst t) = p3"
    by (simp add: trim_point_def s1)
  have N: "trim_point (node1 nd) (node2 nd) (node0 nn) (node1 nn) (snd t) = n0"
    using split_second_start[of "node1 nd" "node2 nd" "node0 nn" "node1 nn" "snd t"]
    by (simp add: s2)
  from assms(1) obtain C pn' sp1 nn' sp2 c1 c2 where
    C: "calculate_center_point (ccs_x s1) (ccs_y s1) (ccs_side s1) (ccs_radius s1) (fst t) = Inr C"
    and sp1: "py_setitem sp pidx (node0 pn', node1 pn', p1) = Inr sp1"
    and sp2: "py_setitem sp1 nidx (n2, node1 nn', node2 nn') = Inr sp2"
    and h: "arc_bezier_handles p3 n0 C = Inr (c1, c2)"
    and r: "sp' = (if i = 0 then [(p2, p3, c1)] @ [(c2, n0, n1)] @ py_slice_1_to sp2 (pidx + 2)
                   else take i sp2 @ [(p2, p3, c1)] @ [(c2, n0, n1)] @ drop (i + 1) sp2)"
    by (auto simp: apply_fit_def s1 s2 Let_def split: sum.splits prod.splits if_splits)
  have len: "length sp2 = length sp"
    using py_setitem_length[OF sp1] py_setitem_length[OF sp2] by simp
  have a: "sp' ! i = (p2, p3, c1)" and b: "sp' ! Suc i = (c2, n0, n1)"
    using r len assms(2) by (auto simp: nth_append)
  from arc_bezier_handles_spec[OF h] a b C P N show ?thesis
    by (simp add: node0_def node1_def node2_def)
qed

lemma corner_sp_fit_38:
  "\<exists>s1. subpath_search 3 (effect_state (3 / 8) 1) corner_sp 1
          = Some (Inr (Searched (effect_state (3 / 8) 1) 0 2 (corner_sp ! 0) (corner_sp ! 1)
                         (corner_sp ! 2) s1 (Some (7 / 8, 1 / 8))))"
  by (simp add: eval_defs corner_sp_def)

lemma corner_sp_result_38:
  "subpath_round_corner 3 (effect_state (3 / 8) 1) corner_sp 1
     = Some (Inr (effect_state (3 / 8) 1,
         [((-3, 0), (-3, 0), (- (17 / 8), 0)),
          ((- (5 / 4), 0), (- (3 / 8), 0), ((sqrt 2 - 1) / 2 - 3 / 8, 0)),
          ((0, 3 / 8 - (sqrt 2 - 1) / 2), (0, 3 / 8), (0, 5 / 4)),
          ((0, 17 / 8), (0, 3), (0, 3))]))"
  by (simp add: eval_defs corner_sp_def sqrt_81_2048)

text \<open>Boxes and chords: a point of the polyline of a node lies, along every direction,
  between two hull points of the node.\<close>

lemma orth_as_par: "orth_of d q = par_of (- snd d, fst d) q"
  by (simp add: orth_of_def par_of_def)

lemma par_neg: "par_of (- fst d, - snd d) q = - par_of d q"
  by (simp add: par_of_def)

lemma covered_upper:
  assumes "covered pts q"
  shows "\<exists>p \<in> set pts. par_of d q \<le> par_of d p"
proof -
  from assms obtain p where "p \<in> set pts" "par_of (- fst d, - snd d) p \<le> par_of (- fst d, - snd d) q"
    unfolding covered_def by blast
  then show ?thesis by (auto simp: par_neg)
qed

lemma fold_min_le: "x \<in> set (v # vs) \<Longrightarrow> fold min vs v \<le> (x :: real)"
proof (induction vs arbitrary: v x)
  case Nil
  then show ?case by simp
next
  case (Cons w ws)
  have m: "fold min ws (min w v) \<le> min w v" using Cons.IH[of "min w v" "min w v"] by simp
  have "x = v \<or> x = w \<or> x \<in> set ws" using Cons.prems by auto
  then show ?case using m Cons.IH[of x "min w v"] by auto
qed

lemma fold_max_ge: "x \<in> set (v # vs) \<Longrightarrow> (x :: real) \<le> fold max vs v"
proof (induction vs arbitrary: v x)
  case Nil
  then show ?case by simp
next
  case (Cons w ws)
  have m: "max w v \<le> fold max ws (max w v)" using Cons.IH[of "max w v" "max w v"] by simp
  have "x = v \<or> x = w \<or> x \<in> set ws" using Cons.prems by auto
  then show ?case using m Cons.IH[of x "max w v"] by auto
qed

lemma py_min_le: "vs \<noteq> [] \<Longrightarrow> \<exists>m. py_min vs = Inr m \<and> (\<forall>x \<in> set vs. m \<le> x)"
  by (cases vs) (auto intro: fold_min_le)

lemma py_max_ge: "vs \<noteq> [] \<Longrightarrow> \<exists>m. py_max vs = Inr m \<and> (\<forall>x \<in> set vs. x \<le> m)"
  by (cases vs) (auto intro: fold_max_ge)

lemma covered_in_values:
  assumes "covered pts q"
  shows "\<exists>sv. hullSearchValues pts d = Inr sv \<and> in_values sv d q"
proof -
  from assms have ne: "pts \<noteq> []" unfolding covered_def by auto
  then have n1: "v_parallel d pts \<noteq> []" and n2: "v_orthogonal d pts \<noteq> []"
    by (simp_all add: v_parallel_def v_orthogonal_def)
  from py_min_le[OF n1] obtain a where a: "py_min (v_parallel d pts) = Inr a"
    "\<forall>x \<in> set (v_parallel d pts). a \<le> x" by blast
  from py_max_ge[OF n1] obtain b where b: "py_max (v_parallel d pts) = Inr b"
    "\<forall>x \<in> set (v_parallel d pts). x \<le> b" by blast
  from py_min_le[OF n2] obtain c where c: "py_min (v_orthogonal d pts) = Inr c"
    "\<forall>x \<in> set (v_orthogonal d pts). c \<le> x" by blast
  from py_max_ge[OF n2] obtain e where e: "py_max (v_orthogonal d pts) = Inr e"
    "\<forall>x \<in> set (v_orthogonal d pts). x \<le> e" by blast
  have P: "set (v_parallel d pts) = par_of d ` set pts"
    by (auto simp: v_parallel_def par_of_def)
  have O: "set (v_orthogonal d pts) = orth_of d ` set pts"
    by (auto simp: v_orthogonal_def orth_of_def)
  from assms obtain p1 where p1: "p1 \<in> set pts" "par_of d p1 \<le> par_of d q"
    unfolding covered_def by blast
  from covered_upper[OF assms] obtain p2 where p2: "p2 \<in> set pts" "par_of d q \<le> par_of d p2"
    by blast
  from assms obtain p3 where p3: "p3 \<in> set pts" "orth_of d p3 \<le> orth_of d q"
    unfolding covered_def orth_as_par by blast
  from covered_upper[OF assms] obtain p4 where p4: "p4 \<in> set pts" "orth_of d q \<le> orth_of d p4"
    unfolding orth_as_par by blast
  have "a \<le> par_of d q" using a(2) p1 P by force
  moreover have "par_of d q \<le> b" using b(2) p2 P by force
  moreover have "c \<le> orth_of d q" using c(2) p3 O by force
  moreover have "orth_of d q \<le> e" using e(2) p4 O by force
  ultimately show ?thesis
    by (simp add: hullSearchValues_def a(1) b(1) c(1) e(1) in_values_def)
qed

lemma par_lerp2: "par_of d (lerp2 u p q) = (1 - u) * par_of d p + u * par_of d q"
  by (simp add: par_of_def lerp2_def algebra_simps)

lemma lerp_ge_one:
  fixes a b u :: real
  assumes "0 \<le> u" "u \<le> 1"
  shows "a \<le> (1 - u) * a + u * b \<or> b \<le> (1 - u) * a + u * b"
proof (cases "a \<le> b")
  case True
  have "(1 - u) * a + u * b = a + u * (b - a)" by (simp add: algebra_simps)
  moreover have "0 \<le> u * (b - a)" using True assms by simp
  ultimately show ?thesis by simp
next
  case False
  have "(1 - u) * a + u * b = b + (1 - u) * (a - b)" by (simp add: algebra_simps)
  moreover have "0 \<le> (1 - u) * (a - b)" using False assms by simp
  ultimately show ?thesis by simp
qed

lemma covered_chord:
  assumes "0 \<le> u" "u \<le> 1"
  shows "covered [p, q] (lerp2 u p q)"
  unfolding covered_def par_lerp2 using lerp_ge_one[OF assms] by auto

lemma unit_decompose:
  assumes "(fst sd)\<^sup>2 + (snd sd)\<^sup>2 = 1"
  shows "par_of d q = par_of sd q * par_of d sd + orth_of sd q * orth_of sd d"
proof -
  have "par_of sd q * par_of d sd + orth_of sd q * orth_of sd d
          = ((fst sd)\<^sup>2 + (snd sd)\<^sup>2) * par_of d q"
    by (simp add: par_of_def orth_of_def power2_eq_square algebra_simps)
  with assms show ?thesis by simp
qed

lemma par_corner:
  assumes "(fst sd)\<^sup>2 + (snd sd)\<^sup>2 = 1"
  shows "par_of d (fst sd * u - snd sd * v, snd sd * u + fst sd * v)
           = u * par_of d sd + v * orth_of sd d"
  by (simp add: par_of_def orth_of_def algebra_simps)

lemma mult_between:
  fixes a b u A :: real
  assumes "a \<le> u" "u \<le> b"
  shows "a * A \<le> u * A \<or> b * A \<le> u * A"
proof (cases "0 \<le> A")
  case True
  then show ?thesis using assms(1) by (simp add: mult_right_mono)
next
  case False
  then show ?thesis using assms(2) by (simp add: mult_right_mono_neg)
qed

lemma covered_box:
  assumes unit: "(fst sd)\<^sup>2 + (snd sd)\<^sup>2 = 1"
    and inv: "in_values (a, b, c, e) sd q"
  shows "covered (box_hullPoints sd (a, b, c, e)) q"
  unfolding covered_def
proof
  fix d
  let ?A = "par_of d sd" and ?B = "orth_of sd d"
  let ?u = "par_of sd q" and ?v = "orth_of sd q"
  from inv have r: "a \<le> ?u" "?u \<le> b" "c \<le> ?v" "?v \<le> e" by (simp_all add: in_values_def)
  have q: "par_of d q = ?u * ?A + ?v * ?B" by (rule unit_decompose[OF unit])
  obtain sx sy where sd: "sd = (sx, sy)" by (cases sd)
  have c: "\<And>u v. par_of d (sx * u - sy * v, sy * u + sx * v) = u * ?A + v * ?B"
    using par_corner[OF unit, of d] by (simp add: sd)
  from mult_between[OF r(1,2), of ?A] mult_between[OF r(3,4), of ?B]
  have "a * ?A + c * ?B \<le> par_of d q \<or> a * ?A + e * ?B \<le> par_of d q
        \<or> b * ?A + c * ?B \<le> par_of d q \<or> b * ?A + e * ?B \<le> par_of d q"
    unfolding q by linarith
  then show "\<exists>p \<in> set (box_hullPoints sd (a, b, c, e)). par_of d p \<le> par_of d q"
    by (auto simp: sd c)
qed

lemma in_values_within: "in_values sv d q \<Longrightarrow> sv_within sv sv' \<Longrightarrow> in_values sv' d q"
  by (auto simp: in_values_def sv_within_def split: prod.splits)

lemma chord_points_leaf:
  "chord_points (CenterCurveSegment x y side r eps ts te ps pe sd None k sv hp)
     = {q. \<exists>u. 0 \<le> u \<and> u \<le> 1 \<and> q = lerp2 u ps pe}"
  by (auto simp: chord_points_def on_chord_def)

lemma chord_points_inner:
  "chord_points (CenterCurveSegment x y side r eps ts te ps pe sd (Some l) k sv hp)
     = (\<Union>c \<in> set l. chord_points c)"
  by (auto simp: chord_points_def)

lemma wf_covered:
  "ccs_wf s \<Longrightarrow> q \<in> chord_points s \<Longrightarrow> covered (ccs_hullPoints s) q \<and> in_box s q"
proof (induction s arbitrary: q rule: ccs_wf.induct)
  case (1 x y side r eps ts te ps pe sd segs k sv hp)
  show ?case
  proof (cases segs)
    case None
    from "1.prems"(2) None obtain u where u: "0 \<le> u" "u \<le> 1" "q = lerp2 u ps pe"
      by (auto simp: chord_points_leaf)
    from "1.prems"(1) None have hp: "hp = [ps, pe]" and sv: "hullSearchValues [ps, pe] sd = Inr sv"
      by simp_all
    have cov: "covered [ps, pe] q" unfolding u(3) by (rule covered_chord[OF u(1,2)])
    from covered_in_values[OF cov, of sd] sv have "in_values sv sd q" by simp
    with cov hp show ?thesis by (simp add: in_box_def)
  next
    case (Some l)
    from "1.prems"(2) Some obtain c where c: "c \<in> set l" "q \<in> chord_points c"
      by (auto simp: chord_points_inner)
    from "1.prems"(1) Some c(1) obtain svc where
      unit: "(fst sd)\<^sup>2 + (snd sd)\<^sup>2 = 1" and hp: "hp = box_hullPoints sd sv"
      and wfc: "ccs_wf c" and svc: "convexHullSearchValues c sd = Inr svc" "sv_within svc sv"
      by auto
    from "1.IH"[OF Some c(1) wfc c(2)] have "covered (ccs_hullPoints c) q" by simp
    from covered_in_values[OF this, of sd] svc have iv: "in_values sv sd q"
      by (auto simp: convexHullSearchValues_def intro: in_values_within)
    obtain a b c' e where sv4: "sv = (a, b, c', e)" by (cases sv)
    from covered_box[OF unit iv[unfolded sv4]] hp iv show ?thesis
      by (simp add: in_box_def sv4)
  qed
qed

lemma chord_dir_unit:
  assumes "sqrt ((fst pe - fst ps)\<^sup>2 + (snd pe - snd ps)\<^sup>2) \<noteq> 0"
  shows "(fst (chord_dir ps pe))\<^sup>2 + (snd (chord_dir ps pe))\<^sup>2 = 1"
proof -
  define a where "a = (fst pe - fst ps)\<^sup>2"
  define b where "b = (snd pe - snd ps)\<^sup>2"
  from assms have nz: "a + b \<noteq> 0" by (auto simp: a_def b_def)
  have "(fst (chord_dir ps pe))\<^sup>2 + (snd (chord_dir ps pe))\<^sup>2 = a / (a + b) + b / (a + b)"
    by (simp add: chord_dir_def power_divide a_def b_def)
  also have "\<dots> = 1" using nz by (metis add_divide_distrib divide_self)
  finally show ?thesis .
qed

lemma merge_within:
  "sv_within sv0 (merge_searchValues sv0 sv1) \<and> sv_within sv1 (merge_searchValues sv0 sv1)"
  by (cases sv0; cases sv1) (simp add: sv_within_def)

lemma init_wf:
  "CenterCurveSegment_init fuel x y side r eps ts te pso peo = Some (Inr s) \<Longrightarrow> ccs_wf s"
proof (induction fuel arbitrary: ts te pso peo s)
  case 0
  then show ?case by simp
next
  case (Suc fuel)
  from Suc.prems show ?case
  proof (cases rule: init_SucE)
    case (leaf ps pe p_mid sv)
    then show ?thesis by (simp add: chord_dir_unit)
  next
    case (inner ps pe p_mid c0 c1 sv0 sv)
    from inner(11) obtain sv1 where
      sv1: "convexHullSearchValues c1 (chord_dir ps pe) = Inr sv1"
      and sv: "sv = merge_searchValues sv0 sv1"
      by (auto split: sum.splits)
    from Suc.IH[OF inner(8)] Suc.IH[OF inner(9)] inner(5,10,12) sv1 sv merge_within[of sv0 sv1]
    show ?thesis by (cases sv0; cases sv1) (simp add: chord_dir_unit)
  qed
qed

lemma wf_nodes: "ccs_wf s \<Longrightarrow> n \<in> set (ccs_nodes s) \<Longrightarrow> ccs_wf n"
proof (induction s rule: ccs_wf.induct)
  case (1 x y side r eps ts te ps pe sd segs k sv hp)
  show ?case
  proof (cases segs)
    case None
    with "1.prems" show ?thesis by simp
  next
    case (Some l)
    with "1.prems"(2) consider
      "n = CenterCurveSegment x y side r eps ts te ps pe sd segs k sv hp"
      | c where "c \<in> set l" "n \<in> set (ccs_nodes c)" by auto
    then show ?thesis
    proof cases
      case 1
      with "1.prems"(1) show ?thesis by simp
    next
      case (2 c)
      from "1.prems"(1) Some 2(1) have "ccs_wf c" by simp
      from "1.IH"[OF Some 2(1) this 2(2)] show ?thesis .
    qed
  qed
qed

lemma not_rejected:
  "in_values own d q \<Longrightarrow> in_values other d q \<Longrightarrow> \<not> rejected own other"
  by (auto simp: in_values_def rejected_def split: prod.splits)

lemma has_nodeE:
  "has_node n res \<Longrightarrow> \<exists>t. res = Some (Inr t) \<and> n \<in> set (ccs_nodes t)"
  by (auto simp: has_node_def split: option.splits sum.splits)

lemma corner_leaf1_node:
  "has_node corner_leaf1
     (CenterCurveSegment_init 3 [-3, -2, -1, 0] [0, 0, 0, 0] 1 (3 / 8) (1 / 1000) 0 1 None None)"
  by (simp add: eval_defs has_node_def corner_leaf1_def)

lemma corner_leaf2_node:
  "has_node corner_leaf2
     (CenterCurveSegment_init 3 [0, 0, 0, 0] [0, 1, 2, 3] 1 (3 / 8) (1 / 1000) 0 1 None None)"
  by (simp add: eval_defs has_node_def corner_leaf2_def)

lemma ph_sqrt:
  "sqrt (68724195409 / 68719476736) = 262153 / 262144"
  "sqrt (4295098369 / 4294967296) = 65537 / 65536"
  "sqrt (68720001025 / 68719476736) = 262145 / 262144"
  "sqrt (268468225 / 268435456) = 16385 / 16384"
  "sqrt (68732584561 / 68719476736) = 262169 / 262144"
  "sqrt (41620680237156330897409 / 75558440187766138470400) = 204011470847 / 274878955520"
  by (rule real_sqrt_unique, simp add: power2_eq_square, simp)+

lemma ph_mid: "calculate_center_point ph_x ph_y 1 1 (3 / 8) = Inr (2359269 / 2097152, 4069 / 4096)"
  by (simp add: eval_defs ph_x_def ph_y_def ph_sqrt power2_eq_square)

lemma ph_leaf_built:
  "CenterCurveSegment_init 1 ph_x ph_y 1 1 (1 / 1000) (1 / 4) (1 / 2) None None = Some (Inr ph_leaf)"
  apply (simp add: eval_defs ph_x_def ph_y_def ph_leaf_def ph_sqrt power2_eq_square)
  done

lemma ph_not_in_box: "\<not> in_box ph_leaf (2359269 / 2097152, 4069 / 4096)"
  by (simp add: in_box_def in_values_def ph_leaf_def par_of_def orth_of_def)

lemma hsv_cons_case:
  "case_sum f g (hullSearchValues (p # ps) d) = g (projr (hullSearchValues (p # ps) d))"
  by (cases "hullSearchValues (p # ps) d")
     (auto simp: hullSearchValues_def v_parallel_def v_orthogonal_def split: sum.splits)

lemma hsv_box_case:
  "case_sum f g (hullSearchValues (box_hullPoints sd sv) d)
     = g (projr (hullSearchValues (box_hullPoints sd sv) d))"
  by (cases sd; cases sv) (simp add: hsv_cons_case)

lemmas eval_defs_opaque =
  calculate_center_point_def Let_def not_good_enough_def numeral_3_eq_3
  convexHullSearchValues_def hsv_cons_case hsv_box_case

lemma ph_leaf_node:
  "has_node ph_leaf (CenterCurveSegment_init 3 ph_x ph_y 1 1 (1 / 1000) 0 1 None None)"
  apply (simp add: eval_defs_opaque ph_x_def ph_y_def ph_leaf_def ph_sqrt power2_eq_square has_node_def
      del: box_hullPoints.simps)
  apply (simp add: hullSearchValues_def v_parallel_def v_orthogonal_def)
  done

section \<open>The claims\<close>

subsection \<open>C1: a zero determinant at a leaf pair\<close>

text \<open>
  C1 says that a zero determinant at a pair of terminal nodes is reported as "no
  intersection", that the search goes on elsewhere in the tree, and that it never fails.
  The source has no such case: under the comment \<^verbatim>\<open>TODO: Implement det = 0 case\<close> it raises
  \<^verbatim>\<open>Exception("det = 0 case not implemented yet")\<close>, and neither loop of the search
  catches anything, so an exception of any iteration leaves the loop (the first two
  equations) and with it the whole search.

  On \<open>straight_sp\<close> at radius 1 the two offset curves are the collinear segments from
  \<open>(-3, 1)\<close> to \<open>(0, 1)\<close> and from \<open>(0, 1)\<close> to \<open>(3, 1)\<close>; the search reaches the two
  terminal nodes that meet in \<open>(0, 1)\<close>, and ends in the exception. There that pair is the
  first one of every loop. With the two segments in the other order it is the last one:
  among the children of the two roots the first three pairs are discarded by the box test
  and return \<^verbatim>\<open>None\<close>, the fourth raises, and so does the search.
\<close>

theorem det_zero_search_raises:
  "intersect_inner s1 (l2a @ l2b) =
     (case intersect_inner s1 l2a of
        Inl e \<Rightarrow> Inl e
      | Inr (Some t, s1') \<Rightarrow> Inr (Some t, s1')
      | Inr (None, s1') \<Rightarrow> intersect_inner s1' l2b)
   \<and> intersect_outer (l1a @ l1b) l2 =
     (case intersect_outer l1a l2 of
        Inl e \<Rightarrow> Inl e
      | Inr (Some t, l1a') \<Rightarrow> Inr (Some t, l1a' @ l1b)
      | Inr (None, l1a') \<Rightarrow>
          (case intersect_outer l1b l2 of
             Inl e \<Rightarrow> Inl e
           | Inr (r, l1b') \<Rightarrow> Inr (r, l1a' @ l1b')))
   \<and> corner_search 3 1 (straight_sp ! 0) (straight_sp ! 1) (straight_sp ! 2)
     = Some (Inl (PyException ''det = 0 case not implemented yet''))
   \<and> on_trees pair_results
       (CenterCurveSegment_init 3 [0, 1, 2, 3] [0, 0, 0, 0] 1 1 (1 / 1000) 0 1 None None)
       (CenterCurveSegment_init 3 [-3, -2, -1, 0] [0, 0, 0, 0] 1 1 (1 / 1000) 0 1 None None)
     = Some (Inr [[Inr None, Inr None],
                  [Inr None, Inl (PyException ''det = 0 case not implemented yet'')]])
   \<and> on_trees search_result
       (CenterCurveSegment_init 3 [0, 1, 2, 3] [0, 0, 0, 0] 1 1 (1 / 1000) 0 1 None None)
       (CenterCurveSegment_init 3 [-3, -2, -1, 0] [0, 0, 0, 0] 1 1 (1 / 1000) 0 1 None None)
     = Some (Inr (Inl (PyException ''det = 0 case not implemented yet'')))"
  using intersect_inner_append[of s1 l2a l2b] intersect_outer_append[of l1a l1b l2]
    straight_sp_search straight_swapped_pairs straight_swapped_search
  by blast

subsection \<open>C2: the box of a node\<close>

text \<open>
  C2 says that the box of a node contains the offset point of every parameter of its
  range, so that the box test never discards two nodes whose offset curves meet. The box
  of a terminal node is its chord: its hull points are the two ends of the range, and in
  the frame of the chord both have the same coordinate across. In the tree of the curved
  segment \<open>ph_x\<close>, \<open>ph_y\<close> at radius 1 the node for the range from \<open>1/4\<close> to \<open>1/2\<close> is terminal,
  and the offset point at \<open>3/8\<close> lies beside its chord, outside the box.
\<close>

theorem box_misses_curve_counterexample:
  "has_node ph_leaf (CenterCurveSegment_init 3 ph_x ph_y 1 1 (1 / 1000) 0 1 None None)
   \<and> ccs_segments ph_leaf = None
   \<and> ccs_t_start ph_leaf = 1 / 4 \<and> ccs_t_end ph_leaf = 1 / 2
   \<and> calculate_center_point ph_x ph_y 1 1 (3 / 8) = Inr (2359269 / 2097152, 4069 / 4096)
   \<and> \<not> in_box ph_leaf (2359269 / 2097152, 4069 / 4096)"
  using ph_leaf_node ph_mid ph_not_in_box by (simp add: ph_leaf_def)

text \<open>
  C2 as amended: in a tree that the constructor returns, the box of every node contains
  every point of the chords of the terminal nodes below it (the polyline that stands for
  the offset curve); so the two box tests of the search never discard two nodes whose
  polylines share a point.
\<close>

theorem box_contains_chords:
  assumes "CenterCurveSegment_init fuel1 x1 y1 side1 r1 eps1 ts1 te1 pso1 peo1 = Some (Inr tree1)"
    and "CenterCurveSegment_init fuel2 x2 y2 side2 r2 eps2 ts2 te2 pso2 peo2 = Some (Inr tree2)"
    and "n1 \<in> set (ccs_nodes tree1)" and "n2 \<in> set (ccs_nodes tree2)"
    and "l1 \<in> set (ccs_nodes n1)" and "ccs_segments l1 = None" and "on_chord l1 q"
    and "l2 \<in> set (ccs_nodes n2)" and "ccs_segments l2 = None" and "on_chord l2 q"
  shows "in_box n1 q \<and> in_box n2 q
         \<and> (\<exists>sv sv'. convexHullSearchValues n2 (ccs_searchDir n1) = Inr sv
               \<and> \<not> rejected (ccs_searchValues n1) sv
               \<and> convexHullSearchValues n1 (ccs_searchDir n2) = Inr sv'
               \<and> \<not> rejected (ccs_searchValues n2) sv')"
proof -
  have w1: "ccs_wf n1" by (rule wf_nodes[OF init_wf[OF assms(1)] assms(3)])
  have w2: "ccs_wf n2" by (rule wf_nodes[OF init_wf[OF assms(2)] assms(4)])
  have q1: "q \<in> chord_points n1" using assms(5,6,7) by (auto simp: chord_points_def)
  have q2: "q \<in> chord_points n2" using assms(8,9,10) by (auto simp: chord_points_def)
  note c1 = wf_covered[OF w1 q1] and c2 = wf_covered[OF w2 q2]
  from covered_in_values[of "ccs_hullPoints n2" q "ccs_searchDir n1"] c2 obtain sv where
    sv: "convexHullSearchValues n2 (ccs_searchDir n1) = Inr sv" "in_values sv (ccs_searchDir n1) q"
    by (auto simp: convexHullSearchValues_def)
  from covered_in_values[of "ccs_hullPoints n1" q "ccs_searchDir n2"] c1 obtain sv' where
    sv': "convexHullSearchValues n1 (ccs_searchDir n2) = Inr sv'" "in_values sv' (ccs_searchDir n2) q"
    by (auto simp: convexHullSearchValues_def)
  have "\<not> rejected (ccs_searchValues n1) sv"
    using not_rejected[of "ccs_searchValues n1" "ccs_searchDir n1" q sv] c1 sv(2)
    by (simp add: in_box_def)
  moreover have "\<not> rejected (ccs_searchValues n2) sv'"
    using not_rejected[of "ccs_searchValues n2" "ccs_searchDir n2" q sv'] c2 sv'(2)
    by (simp add: in_box_def)
  ultimately show ?thesis using c1 c2 sv(1) sv'(1) by blast
qed

theorem box_contains_chords_witness:
  "in_box corner_leaf1 (- (3 / 8), 3 / 8) \<and> in_box corner_leaf2 (- (3 / 8), 3 / 8)
   \<and> \<not> rejected (ccs_searchValues corner_leaf1) (- (3 / 8), - (3 / 8), 0, 3 / 4)
   \<and> \<not> rejected (ccs_searchValues corner_leaf2) (3 / 8, 3 / 8, 0, 3 / 4)"
proof -
  from has_nodeE[OF corner_leaf1_node] obtain t1 where
    t1: "CenterCurveSegment_init 3 [-3, -2, -1, 0] [0, 0, 0, 0] 1 (3 / 8) (1 / 1000) 0 1 None None
           = Some (Inr t1)" "corner_leaf1 \<in> set (ccs_nodes t1)" by blast
  from has_nodeE[OF corner_leaf2_node] obtain t2 where
    t2: "CenterCurveSegment_init 3 [0, 0, 0, 0] [0, 1, 2, 3] 1 (3 / 8) (1 / 1000) 0 1 None None
           = Some (Inr t2)" "corner_leaf2 \<in> set (ccs_nodes t2)" by blast
  have s: "ccs_segments corner_leaf1 = None" "ccs_segments corner_leaf2 = None"
    by (simp_all add: corner_leaf1_def corner_leaf2_def)
  have o1: "on_chord corner_leaf1 (- (3 / 8), 3 / 8)"
    unfolding on_chord_def by (rule exI[of _ "1 / 2"]) (simp add: corner_leaf1_def lerp2_def)
  have o2: "on_chord corner_leaf2 (- (3 / 8), 3 / 8)"
    unfolding on_chord_def by (rule exI[of _ "1 / 2"]) (simp add: corner_leaf2_def lerp2_def)
  have h1: "convexHullSearchValues corner_leaf2 (ccs_searchDir corner_leaf1)
              = Inr (- (3 / 8), - (3 / 8), 0, 3 / 4)"
    by (simp add: eval_defs corner_leaf1_def corner_leaf2_def)
  have h2: "convexHullSearchValues corner_leaf1 (ccs_searchDir corner_leaf2)
              = Inr (3 / 8, 3 / 8, 0, 3 / 4)"
    by (simp add: eval_defs corner_leaf1_def corner_leaf2_def)
  from box_contains_chords[OF t1(1) t2(1) t1(2) t2(2) ccs_nodes_self s(1) o1 ccs_nodes_self s(2) o2]
    h1 h2
  show ?thesis by simp
qed

subsection \<open>C3: the trim factor\<close>

text \<open>
  C3 says that a fit that would consume more than \<^verbatim>\<open>max_trim_factor\<close> (0.90, or 0.98 for a
  single selected node) of an adjacent segment is not applied. The comments of the source
  say the same of the two factors, but \<^verbatim>\<open>self.max_trim_factor\<close> is only assigned:
  \<^verbatim>\<open>subpath_round_corner\<close> returns the same subpath whatever its value (the first
  equation). On \<open>corner_sp\<close> at radius \<open>189 / 64\<close> the search returns the parameters
  \<open>1 / 64\<close> and \<open>63 / 64\<close>: the arc takes \<open>63 / 64\<close> of either segment of length 3, more
  than both factors, and the fit is applied, with two nodes selected and with one.
\<close>

theorem trim_limit_not_enforced:
  "subpath_round_corner fuel (st\<lparr>max_trim_factor := m\<rparr>) sp i
     = map_option (map_sum id (map_prod (max_trim_factor_update (\<lambda>_. m)) id))
         (subpath_round_corner fuel st sp i)
   \<and> max_trim_factor (effect_state (189 / 64) 2) = 90 / 100
   \<and> max_trim_factor (effect_state (189 / 64) 1) = 98 / 100
   \<and> map_option (map_sum id fst)
        (corner_search 3 (189 / 64) (corner_sp ! 0) (corner_sp ! 1) (corner_sp ! 2))
     = Some (Inr (Some (1 / 64, 63 / 64)))
   \<and> subpath_round_corner 3 (effect_state (189 / 64) 2) corner_sp 1
     = Some (Inr (effect_state (189 / 64) 2,
         [((-3, 0), (-3, 0), (- (191 / 64), 0)),
          ((- (95 / 32), 0), (- (189 / 64), 0), (63 / 16 * (sqrt 2 - 1) - 189 / 64, 0)),
          ((0, 189 / 64 - 63 / 16 * (sqrt 2 - 1)), (0, 189 / 64), (0, 95 / 32)),
          ((0, 191 / 64), (0, 3), (0, 3))]))
   \<and> subpath_round_corner 3 (effect_state (189 / 64) 1) corner_sp 1
     = Some (Inr (effect_state (189 / 64) 1,
         [((-3, 0), (-3, 0), (- (191 / 64), 0)),
          ((- (95 / 32), 0), (- (189 / 64), 0), (63 / 16 * (sqrt 2 - 1) - 189 / 64, 0)),
          ((0, 189 / 64 - 63 / 16 * (sqrt 2 - 1)), (0, 189 / 64), (0, 95 / 32)),
          ((0, 191 / 64), (0, 3), (0, 3))]))"
proof -
  have g: "subpath_round_corner fuel (st\<lparr>max_trim_factor := m\<rparr>) sp i
     = map_option (map_sum id (map_prod (max_trim_factor_update (\<lambda>_. m)) id))
         (subpath_round_corner fuel st sp i)" for fuel st m sp i
    unfolding subpath_round_corner_def subpath_search_trim
    by (auto split: option.splits sum.splits search_outcome.splits)
  have e: "effect_state (189 / 64) 1 = (effect_state (189 / 64) 2)\<lparr>max_trim_factor := 98 / 100\<rparr>"
    by (simp add: effect_state_def max_trim_factor_single_def)
  have f: "max_trim_factor (effect_state (189 / 64) 2) = 90 / 100"
    "max_trim_factor (effect_state (189 / 64) 1) = 98 / 100"
    by (simp_all add: effect_state_def max_trim_factor_default_def max_trim_factor_single_def)
  have s: "subpath_round_corner 3 (effect_state (189 / 64) 1) corner_sp 1
     = Some (Inr (effect_state (189 / 64) 1,
         [((-3, 0), (-3, 0), (- (191 / 64), 0)),
          ((- (95 / 32), 0), (- (189 / 64), 0), (63 / 16 * (sqrt 2 - 1) - 189 / 64, 0)),
          ((0, 189 / 64 - 63 / 16 * (sqrt 2 - 1)), (0, 189 / 64), (0, 95 / 32)),
          ((0, 191 / 64), (0, 3), (0, 3))]))"
    unfolding e g corner_sp_fit_189 by simp
  from g f corner_sp_search_189 corner_sp_fit_189 s show ?thesis by blast
qed

subsection \<open>C4: a straight-through corner\<close>

text \<open>
  C4 says that a corner whose two tangents are antiparallel is skipped and counted as
  degenerated. The source counts only the ends of a path. At the middle node of
  \<open>straight_sp\<close> the handles are \<open>(-1, 0)\<close> and \<open>(1, 0)\<close>, and the call ends in the
  exception of the zero determinant.
\<close>

theorem straight_through_corner_raises:
  "map_sum id (\<lambda>r. map_option (\<lambda>(sn, c). (nb_handle (sn_prev sn), nb_handle (sn_next sn))) (snd r))
       (super_node (effect_state 1 1) straight_sp 1)
     = Inr (Some ((- 1, 0), (1, 0)))
   \<and> subpath_round_corner 3 (effect_state 1 1) straight_sp 1
     = Some (Inl (PyException ''det = 0 case not implemented yet''))"
  by (simp add: eval_defs straight_sp_def)

subsection \<open>C5: no intersection\<close>

text \<open>
  C5 says that a search without result counts the corner in \<^verbatim>\<open>skipped_small_count\<close>,
  records a length in \<^verbatim>\<open>skipped_small_len\<close> and returns the subpath unchanged. The source
  keeps both fields for that and prints its warning from them, but writes them nowhere:
  whatever \<^verbatim>\<open>subpath_round_corner\<close> returns, the two fields are those of the state it
  was given (the first equation). On \<open>corner_sp\<close> at radius 4 the search finds nothing; the
  subpath comes back unchanged, and so does the state, with its counter at 0 and its
  length at \<open>10 ^ 99\<close>, also after the whole loop over the selected nodes.
\<close>

theorem no_room_not_counted:
  "map_option (map_sum id (\<lambda>r. (skipped_small_count (fst r), skipped_small_len (fst r))))
       (subpath_round_corner fuel st sp i)
     = map_option (map_sum id (\<lambda>r. (skipped_small_count st, skipped_small_len st)))
         (subpath_round_corner fuel st sp i)
   \<and> map_option (map_sum id fst) (corner_search 3 4 (corner_sp ! 0) (corner_sp ! 1) (corner_sp ! 2))
     = Some (Inr None)
   \<and> subpath_round_corner 3 (effect_state 4 2) corner_sp 1
     = Some (Inr (effect_state 4 2, corner_sp))
   \<and> round_corners 3 (effect_state 4 1) corner_sp 0 [1]
     = Some (Inr (effect_state 4 1, corner_sp))
   \<and> skipped_small_count (effect_state 4 2) = 0
   \<and> skipped_small_len (effect_state 4 2) = 10 ^ 99"
proof -
  have g: "map_option (map_sum id (\<lambda>r. (skipped_small_count (fst r), skipped_small_len (fst r))))
       (subpath_round_corner fuel st sp i)
     = map_option (map_sum id (\<lambda>r. (skipped_small_count st, skipped_small_len st)))
         (subpath_round_corner fuel st sp i)"
  proof (cases "subpath_round_corner fuel st sp i")
    case None
    then show ?thesis by simp
  next
    case (Some v)
    then show ?thesis
      by (cases v) (auto dest: subpath_round_corner_counters)
  qed
  have c: "skipped_small_count (effect_state 4 2) = 0"
    "skipped_small_len (effect_state 4 2) = 10 ^ 99"
    by (simp_all add: effect_state_def)
  from g c corner_sp_search_4 show ?thesis by blast
qed

subsection \<open>C6: a segment without tangent\<close>

text \<open>
  C6 says that a segment whose four control points coincide is reported as an error of
  that corner alone, and that the division by the norm of the tangent is guarded. In the
  source the division is not guarded (its comment reads \<^verbatim>\<open>TODO: handle norm=0 case\<close>) and
  nothing catches the \<^verbatim>\<open>ZeroDivisionError\<close>: for four coincident control points it is
  raised at every parameter, and at parameter 0 already for a segment whose first handle
  lies on its first point. In \<open>dup_sp\<close> the exception of node 1 ends the loop before node 2,
  which is fitted when it is selected alone.
\<close>

theorem coincident_control_points_raise:
  "calculate_center_point [a, a, a, a] [b, b, b, b] side r t = Inl ZeroDivisionError
   \<and> calculate_center_point [a, a, c, c] [b, b, d, d] side r 0 = Inl ZeroDivisionError
   \<and> round_corners 3 (effect_state (3 / 8) 2) dup_sp 0 [1, 2] = Some (Inl ZeroDivisionError)
   \<and> round_corners 3 (effect_state (3 / 8) 1) dup_sp 0 [2]
       = Some (Inr (effect_state (3 / 8) 1,
           [((0, 0), (0, 0), (0, 0)), ((0, 0), (0, 0), (7 / 8, 0)),
            ((7 / 4, 0), (21 / 8, 0), (21 / 8 + (sqrt 2 - 1) / 2, 0)),
            ((3, 3 / 8 - (sqrt 2 - 1) / 2), (3, 3 / 8), (3, 5 / 4)),
            ((3, 17 / 8), (3, 3), (3, 3))]))"
  by (simp add: eval_defs dup_sp_def sqrt_81_2048)

subsection \<open>C7: the trees after a search\<close>

lemma corner_children_reversed:
  "map_option (map_sum id child_ranges)
       (CenterCurveSegment_init 3 [-3, -2, -1, 0] [0, 0, 0, 0] 1 (3 / 8) (1 / 1000) 0 1 None None)
     = Some (Inr [(0, 1 / 2), (1 / 2, 1)])
   \<and> map_option (map_sum id (child_ranges \<circ> snd))
       (corner_search 3 (3 / 8) (corner_sp ! 0) (corner_sp ! 1) (corner_sp ! 2))
     = Some (Inr [(1 / 2, 1), (0, 1 / 2)])"
  by (simp add: eval_defs corner_sp_def child_ranges_def)

lemma repeated_search_differs:
  "build_twice
     (CenterCurveSegment_init 3 [3, 11, 19, 27] [9 / 2, 9 / 2, 9 / 2, 9 / 2] 1 0 4 0 1 None None)
     (CenterCurveSegment_init 3 [0, 16, 32, 48] [0, 32, -32, 0] 1 0 4 0 1 None None)
   = Some (Inr (Some (5 / 8, 3 / 8), Some (1 / 8, 1 / 8)))"
  by (simp add: eval_defs build_twice_def intersect_twice_def sqrt_225 sqrt_576 sqrt_2304
        power2_eq_square)

text \<open>
  C7 says that a search leaves both trees as they were, so that a second search on the
  same trees gives the same result. \<^verbatim>\<open>subSegments1.reverse()\<close> reverses the child list of
  the first tree in place. After the search on \<open>corner_sp\<close> at radius \<open>3 / 8\<close> the children
  of the root of the first tree stand in the other order. And for a horizontal line that
  crosses an S-shaped curve twice, the first search returns the crossing in the second
  half of the line, the second search on the same two objects the crossing in its first
  half.
\<close>

theorem search_mutates_first_tree:
  "map_option (map_sum id child_ranges)
       (CenterCurveSegment_init 3 [-3, -2, -1, 0] [0, 0, 0, 0] 1 (3 / 8) (1 / 1000) 0 1 None None)
     = Some (Inr [(0, 1 / 2), (1 / 2, 1)])
   \<and> map_option (map_sum id (child_ranges \<circ> snd))
       (corner_search 3 (3 / 8) (corner_sp ! 0) (corner_sp ! 1) (corner_sp ! 2))
     = Some (Inr [(1 / 2, 1), (0, 1 / 2)])
   \<and> build_twice
       (CenterCurveSegment_init 3 [3, 11, 19, 27] [9 / 2, 9 / 2, 9 / 2, 9 / 2] 1 0 4 0 1 None None)
       (CenterCurveSegment_init 3 [0, 16, 32, 48] [0, 32, -32, 0] 1 0 4 0 1 None None)
     = Some (Inr (Some (5 / 8, 3 / 8), Some (1 / 8, 1 / 8)))"
  using corner_children_reversed repeated_search_differs by blast

subsection \<open>C8: terminal nodes are flat\<close>

text \<open>
  C8: in a tree that the constructor returns, every node holds the offset points of the
  ends of its range, the offset point at the middle of its range exists, and the node is
  terminal exactly when the subdivision test (range above 0.26, or squared deviation of
  the middle above \<^verbatim>\<open>eps**2\<close>) is false. A terminal node therefore has a range of at most
  0.26 and a deviation of at most \<open>eps\<close>: both, which is more than the claim's "or".
\<close>

theorem terminal_nodes_flat:
  assumes "CenterCurveSegment_init fuel x y side r eps t_start t_end None None = Some (Inr tree)"
    and "n \<in> set (ccs_nodes tree)"
    and "0 \<le> eps"
  shows "\<exists>p_mid.
           calculate_center_point x y side r ((ccs_t_start n + ccs_t_end n) / 2) = Inr p_mid
           \<and> calculate_center_point x y side r (ccs_t_start n) = Inr (ccs_p_start n)
           \<and> calculate_center_point x y side r (ccs_t_end n) = Inr (ccs_p_end n)
           \<and> (ccs_segments n = None)
               = (\<not> not_good_enough eps (ccs_t_start n) (ccs_t_end n)
                      (ccs_p_start n) (ccs_p_end n) p_mid)
           \<and> (ccs_terminalSegments n = 1) = (ccs_segments n = None)
           \<and> (ccs_segments n = None \<longrightarrow>
                 ccs_t_end n - ccs_t_start n \<le> 26 / 100
                 \<and> midpoint_deviation (ccs_p_start n) (ccs_p_end n) p_mid \<le> eps)"
proof -
  have "node_flat x y side r eps n"
    by (rule init_nodes_flat[OF assms(1) _ _ assms(2)]) (simp_all add: start_point_def)
  then obtain p_mid where
    m: "calculate_center_point x y side r ((ccs_t_start n + ccs_t_end n) / 2) = Inr p_mid"
    and s: "calculate_center_point x y side r (ccs_t_start n) = Inr (ccs_p_start n)"
    and e: "calculate_center_point x y side r (ccs_t_end n) = Inr (ccs_p_end n)"
    and c: "(ccs_segments n = None)
              = (\<not> not_good_enough eps (ccs_t_start n) (ccs_t_end n)
                     (ccs_p_start n) (ccs_p_end n) p_mid)"
    and t: "(ccs_terminalSegments n = 1) = (ccs_segments n = None)"
    unfolding node_flat_def by auto
  from c have h: "ccs_segments n = None \<longrightarrow>
                 ccs_t_end n - ccs_t_start n \<le> 26 / 100
                 \<and> midpoint_deviation (ccs_p_start n) (ccs_p_end n) p_mid \<le> eps"
    by (auto simp: not_good_enough_deviation[OF assms(3)])
  show ?thesis
    using m s e c t h by (intro exI[of _ p_mid]) simp
qed

theorem terminal_nodes_flat_witness:
  "ccs_segments straight_leaf1 = None
   \<and> ccs_t_end straight_leaf1 - ccs_t_start straight_leaf1 \<le> 26 / 100
   \<and> (\<exists>p_mid. calculate_center_point [-3, -2, -1, 0] [0, 0, 0, 0] 1 1 (7 / 8) = Inr p_mid
        \<and> midpoint_deviation (ccs_p_start straight_leaf1) (ccs_p_end straight_leaf1) p_mid
            \<le> 1 / 1000)"
proof -
  have "\<exists>tree. CenterCurveSegment_init 3 [-3, -2, -1, 0] [0, 0, 0, 0] 1 1 (1 / 1000) 0 1 None None
            = Some (Inr tree) \<and> straight_leaf1 \<in> set (ccs_nodes tree)"
    by (simp add: eval_defs straight_leaf1_def)
  then obtain tree where
    r: "CenterCurveSegment_init 3 [-3, -2, -1, 0] [0, 0, 0, 0] 1 1 (1 / 1000) 0 1 None None
          = Some (Inr tree)"
    and n: "straight_leaf1 \<in> set (ccs_nodes tree)" by blast
  have l: "ccs_segments straight_leaf1 = None" "ccs_t_start straight_leaf1 = 3 / 4"
    "ccs_t_end straight_leaf1 = 1" by (simp_all add: straight_leaf1_def)
  from terminal_nodes_flat[OF r n] l show ?thesis by auto
qed

subsection \<open>C9: the arc segment\<close>

text \<open>
  C9: when a corner is fitted at the parameters \<open>t\<close>, the two new nodes stand at the
  indices \<open>i\<close> and \<open>i + 1\<close>; the arc segment between them starts at the point \<open>P\<close> where
  the incoming segment is cut and ends at the point \<open>N\<close> where the outgoing segment is cut,
  and its two handles are those of the specification's formula for \<open>P\<close>, \<open>N\<close> and the
  centre \<open>C\<close>, the offset point of the incoming segment at its parameter.
\<close>

theorem fitted_arc_segment:
  assumes "subpath_search fuel st sp i
             = Some (Inr (Searched st' pidx nidx pn nd nn s1 (Some t)))"
    and "subpath_round_corner fuel st sp i = Some (Inr (st'', sp'))"
  shows "\<exists>C. calculate_center_point
                [fst (node1 pn), fst (node2 pn), fst (node0 nd), fst (node1 nd)]
                [snd (node1 pn), snd (node2 pn), snd (node0 nd), snd (node1 nd)]
                (corner_side nd) (radius st) (fst t) = Inr C
           \<and> node1 (sp' ! i) = trim_point (node1 pn) (node2 pn) (node0 nd) (node1 nd) (fst t)
           \<and> node1 (sp' ! Suc i) = trim_point (node1 nd) (node2 nd) (node0 nn) (node1 nn) (snd t)
           \<and> (node2 (sp' ! i), node0 (sp' ! Suc i))
               = spec_arc_handles
                   (trim_point (node1 pn) (node2 pn) (node0 nd) (node1 nd) (fst t))
                   (trim_point (node1 nd) (node2 nd) (node0 nn) (node1 nn) (snd t)) C"
proof -
  note e = subpath_searchE[OF assms(1)]
  from e have i: "i < length sp" by (auto dest: py_getitem_nat)
  from e have c: "corner_search fuel (radius st) pn nd nn = Some (Inr (Some t, s1))" by simp
  from assms have "apply_fit sp i pidx nidx pn nd nn s1 t = Inr sp'"
    by (auto simp: subpath_round_corner_def split: sum.splits)
  from apply_fit_nodes[OF this i] corner_search_curve[OF c] show ?thesis by simp
qed

theorem fitted_arc_segment_witness:
  "node1 ([((-3, 0), (-3, 0), (- (17 / 8), 0)),
           ((- (5 / 4), 0), (- (3 / 8), 0), ((sqrt 2 - 1) / 2 - 3 / 8, 0)),
           ((0, 3 / 8 - (sqrt 2 - 1) / 2), (0, 3 / 8), (0, 5 / 4)),
           ((0, 17 / 8), (0, 3), (0, 3))] ! 1)
     = trim_point (-3, 0) (-2, 0) (-1, 0) (0, 0) (7 / 8)
   \<and> (((sqrt 2 - 1) / 2 - 3 / 8, 0), (0, 3 / 8 - (sqrt 2 - 1) / 2))
     = spec_arc_handles (trim_point (-3, 0) (-2, 0) (-1, 0) (0, 0) (7 / 8))
         (trim_point (0, 0) (0, 1) (0, 2) (0, 3) (1 / 8)) (- (3 / 8), 3 / 8)"
proof -
  from corner_sp_fit_38 obtain s1 where
    s: "subpath_search 3 (effect_state (3 / 8) 1) corner_sp 1
          = Some (Inr (Searched (effect_state (3 / 8) 1) 0 2 (corner_sp ! 0) (corner_sp ! 1)
                         (corner_sp ! 2) s1 (Some (7 / 8, 1 / 8))))" ..
  have c: "calculate_center_point [-3, -2, -1, 0] [0, 0, 0, 0] 1 (3 / 8) (7 / 8)
             = Inr (- (3 / 8), 3 / 8)"
    by (simp add: eval_defs)
  from fitted_arc_segment[OF s corner_sp_result_38] c show ?thesis
    by (simp add: corner_sp_def node0_def node1_def node2_def corner_side_def effect_state_def)
qed

subsection \<open>C10: radius 0\<close>

text \<open>
  C10 says that rounding with radius 0 returns the subpath unchanged and reports no
  error. Nothing in the source treats radius 0 apart. On \<open>corner_sp\<close> the two offset curves
  are the segments themselves, the search returns the parameters \<open>(1, 0)\<close> of the corner,
  and the arc handles divide by zero.
\<close>

theorem radius_zero_counterexample:
  "radius (effect_state 0 1) = 0
   \<and> map_option (map_sum id fst)
        (corner_search 3 0 (corner_sp ! 0) (corner_sp ! 1) (corner_sp ! 2))
     = Some (Inr (Some (1, 0)))
   \<and> subpath_round_corner 3 (effect_state 0 1) corner_sp 1 = Some (Inl ZeroDivisionError)"
  by (simp add: eval_defs corner_sp_def)

text \<open>
  C10 as amended: with radius 0 a call that returns has left the subpath unchanged, and a
  call whose search finds parameters raises \<^verbatim>\<open>ZeroDivisionError\<close>: the centre is the point
  where the incoming segment is cut.
\<close>

theorem radius_zero_never_fits:
  assumes "radius st = 0"
  shows "(\<forall>st' sp'. subpath_round_corner fuel st sp i = Some (Inr (st', sp')) \<longrightarrow> sp' = sp)
         \<and> (\<forall>st' pidx nidx pn nd nn s1 t.
               subpath_search fuel st sp i
                 = Some (Inr (Searched st' pidx nidx pn nd nn s1 (Some t)))
               \<longrightarrow> subpath_round_corner fuel st sp i = Some (Inl ZeroDivisionError))"
proof -
  have fit: "subpath_round_corner fuel st sp i = Some (Inl ZeroDivisionError)"
    if "subpath_search fuel st sp i = Some (Inr (Searched st' pidx nidx pn nd nn s1 (Some t)))"
    for st' pidx nidx pn nd nn s1 t
  proof -
    from subpath_searchE[OF that] assms
    have "apply_fit sp i pidx nidx pn nd nn s1 t = Inl ZeroDivisionError"
      by (auto intro: apply_fit_radius_zero)
    with that show ?thesis by (simp add: subpath_round_corner_def)
  qed
  have "sp' = sp" if "subpath_round_corner fuel st sp i = Some (Inr (st', sp'))" for st' sp'
  proof (cases "subpath_search fuel st sp i")
    case None
    with that show ?thesis by (simp add: subpath_round_corner_def)
  next
    case (Some res)
    show ?thesis
    proof (cases res)
      case (Inl e)
      with Some that show ?thesis by (simp add: subpath_round_corner_def)
    next
      case (Inr out)
      show ?thesis
      proof (cases out)
        case (Skipped s)
        with Some Inr that show ?thesis by (simp add: subpath_round_corner_def)
      next
        case (Searched s a b c d e f g)
        show ?thesis
        proof (cases g)
          case None
          with Some Inr Searched that show ?thesis by (simp add: subpath_round_corner_def)
        next
          case (Some t)
          with \<open>subpath_search fuel st sp i = Some res\<close> Inr Searched fit that
          show ?thesis by simp
        qed
      qed
    qed
  qed
  with fit show ?thesis by blast
qed

theorem radius_zero_never_fits_witness:
  "subpath_round_corner 3 (effect_state 0 2) corner_sp 1 = Some (Inl ZeroDivisionError)
   \<and> (\<exists>st'. subpath_round_corner 3 (effect_state 0 2) corner_sp 2 = Some (Inr (st', corner_sp)))"
proof -
  have r: "radius (effect_state 0 2) = 0" by (simp add: effect_state_def)
  have "\<exists>s1. subpath_search 3 (effect_state 0 2) corner_sp 1
          = Some (Inr (Searched (effect_state 0 2) 0 2 (corner_sp ! 0) (corner_sp ! 1)
                         (corner_sp ! 2) s1 (Some (1, 0))))"
    by (simp add: eval_defs corner_sp_def)
  then obtain s1 where
    s: "subpath_search 3 (effect_state 0 2) corner_sp 1
          = Some (Inr (Searched (effect_state 0 2) 0 2 (corner_sp ! 0) (corner_sp ! 1)
                         (corner_sp ! 2) s1 (Some (1, 0))))" ..
  have "\<exists>st' sp'. subpath_round_corner 3 (effect_state 0 2) corner_sp 2 = Some (Inr (st', sp'))"
    by (simp add: eval_defs corner_sp_def)
  then obtain st' sp' where
    e: "subpath_round_corner 3 (effect_state 0 2) corner_sp 2 = Some (Inr (st', sp'))" by blast
  from radius_zero_never_fits[OF r, of 3 corner_sp 1] s
  have a: "subpath_round_corner 3 (effect_state 0 2) corner_sp 1 = Some (Inl ZeroDivisionError)"
    by blast
  from radius_zero_never_fits[OF r, of 3 corner_sp 2] e have "sp' = corner_sp" by blast
  with a e show ?thesis by blast
qed

end
